theory Spec2Isabelle
  imports Complex_Main
begin

text \<open>
  The Topic lifecycle of the document question-answering application: the creation of a
  Topic record by \<open>saveTopicDocument\<close> (\<open>src/_actions/topic-actions.ts\<close>), the indexing
  handler (\<open>amplify/functions/upload-to-llama-cloud/handler.ts\<close>) and the query handler
  (\<open>amplify/functions/query-topic/handler.ts\<close>). The DynamoDB table is an explicit map; the
  outcome of every call to an external service (the table's requests, S3, Llama Cloud,
  Anthropic, the clock) is an input of the model, so that a theorem about a handler holds
  for every behaviour of the services. Exceptions are values: a step returns
  \<open>thrown + 'a\<close>, and a \<open>try\<close>/\<open>catch\<close> is a case distinction. Logging is left out.
\<close>

section \<open>JavaScript values\<close>

text \<open>
  A string is the list of its code units (\<open>substring\<close> and \<open>length\<close> count code units);
  only units below 256 are representable. A value that a \<open>throw\<close> or a rejected promise
  carries is either an \<open>Error\<close> object with its message or some other value. An optional
  field (\<open>undefined\<close> when absent) is an \<open>option\<close>.
\<close>

datatype thrown = Error string | NonError

definition error_message :: "thrown \<Rightarrow> string" where
  \<comment> \<open>\<open>error instanceof Error ? error.message : 'Unknown error occurred'\<close>\<close>
  "error_message e = (case e of Error m \<Rightarrow> m | NonError \<Rightarrow> ''Unknown error occurred'')"

definition truthy :: "string option \<Rightarrow> bool" where
  \<comment> \<open>\<open>undefined\<close> and the empty string are falsy\<close>
  "truthy v = (case v of None \<Rightarrow> False | Some s \<Rightarrow> s \<noteq> [])"

text \<open>
  A value read from a parsed JSON body or from an attribute of an item: a string, a number,
  a boolean, \<open>null\<close>, an object or array (\<open>JStructure\<close>, its content left out), or
  \<open>undefined\<close> for a field that is missing.
\<close>

datatype json = JString string | JNumber real | JBool bool | JNull | JUndefined | JStructure

fun truthy_json :: "json \<Rightarrow> bool" where
  "truthy_json (JString s) = (s \<noteq> [])"
| "truthy_json (JNumber x) = (x \<noteq> 0)"
| "truthy_json (JBool b) = b"
| "truthy_json JNull = False"
| "truthy_json JUndefined = False"
| "truthy_json JStructure = True"

definition attribute_value :: "json option \<Rightarrow> json" where
  \<comment> \<open>reading an attribute of an item: \<open>undefined\<close> when the item does not have it\<close>
  "attribute_value v = (case v of None \<Rightarrow> JUndefined | Some x \<Rightarrow> x)"

definition truthy_attribute :: "json option \<Rightarrow> bool" where
  "truthy_attribute v = truthy_json (attribute_value v)"

definition template :: "string option \<Rightarrow> string" where
  \<comment> \<open>a template literal's rendering of a string-valued field\<close>
  "template v = (case v of None \<Rightarrow> ''undefined'' | Some s \<Rightarrow> s)"

definition digit_char :: "nat \<Rightarrow> char" where
  "digit_char n = ''0123456789'' ! n"

function show_nat :: "nat \<Rightarrow> string" where
  "show_nat n = (if n < 10 then [digit_char n] else show_nat (n div 10) @ [digit_char (n mod 10)])"
  by pat_completeness auto
termination
  by (relation "measure id") auto

declare show_nat.simps [simp del]

definition show_int :: "int \<Rightarrow> string" where
  "show_int k = (if k < 0 then CHR ''-'' # show_nat (nat (- k)) else show_nat (nat k))"

section \<open>The clock\<close>

text \<open>
  A \<open>Date\<close> object, by its UTC fields as the \<open>getUTC...\<close> methods return them (the month
  counted from 0), and \<open>Date.prototype.toISOString\<close>: \<open>YYYY-MM-DDTHH:mm:ss.sssZ\<close>, every
  field padded with zeros on the left; a year beyond 9999 is written with a sign and six
  digits.
\<close>

record Date =
  UTCFullYear :: nat
  UTCMonth :: nat
  UTCDate :: nat
  UTCHours :: nat
  UTCMinutes :: nat
  UTCSeconds :: nat
  UTCMilliseconds :: nat

definition pad :: "nat \<Rightarrow> nat \<Rightarrow> string" where
  "pad k n = replicate (k - length (show_nat n)) (CHR ''0'') @ show_nat n"

definition toISOString :: "Date \<Rightarrow> string" where
  "toISOString d =
     (if UTCFullYear d \<le> 9999 then pad 4 (UTCFullYear d) else CHR ''+'' # pad 6 (UTCFullYear d))
     @ ''-'' @ pad 2 (UTCMonth d + 1) @ ''-'' @ pad 2 (UTCDate d)
     @ ''T'' @ pad 2 (UTCHours d) @ '':'' @ pad 2 (UTCMinutes d) @ '':'' @ pad 2 (UTCSeconds d)
     @ ''.'' @ pad 3 (UTCMilliseconds d) @ ''Z''"

definition fields_in_range :: "Date \<Rightarrow> bool" where
  \<comment> \<open>the ranges of the fields of a valid \<open>Date\<close> with a four-digit year\<close>
  "fields_in_range d =
     (UTCFullYear d \<le> 9999 \<and> UTCMonth d < 12 \<and> 1 \<le> UTCDate d \<and> UTCDate d \<le> 31 \<and>
      UTCHours d < 24 \<and> UTCMinutes d < 60 \<and> UTCSeconds d < 60 \<and> UTCMilliseconds d < 1000)"

definition is_digit :: "char \<Rightarrow> bool" where
  "is_digit c = (c \<in> set ''0123456789'')"

fun matches :: "string \<Rightarrow> string \<Rightarrow> bool" where
  \<comment> \<open>a pattern in which \<open>d\<close> stands for a decimal digit and every other character for itself\<close>
  "matches [] [] = True"
| "matches (p # ps) (c # cs) = ((if p = CHR ''d'' then is_digit c else c = p) \<and> matches ps cs)"
| "matches [] (c # cs) = False"
| "matches (p # ps) [] = False"

definition iso_8601 :: "string \<Rightarrow> bool" where
  \<comment> \<open>the ISO 8601 extended format of a UTC date and time with milliseconds\<close>
  "iso_8601 s = matches ''dddd-dd-ddTdd:dd:dd.dddZ'' s"

section \<open>The Topic table\<close>

text \<open>
  One item of the DynamoDB table behind the \<open>Topic\<close> model of \<open>amplify/data/resource.ts\<close>.
  The key attribute \<open>id\<close> is the key of the map; every other attribute may be absent. The
  two identifiers hold whatever value the indexing handler stored, the others the strings
  that the operations of this core write.
\<close>

record Topic =
  title :: "string option"
  description :: "string option"
  s3Key :: "string option"
  topicStatus :: "string option"
  llamaCloudPipelineId :: "json option"
  llamaCloudFileId :: "json option"
  indexedAt :: "string option"
  createdAt :: "string option"
  updatedAt :: "string option"

type_synonym table = "string \<Rightarrow> Topic option"

definition no_attributes :: Topic where
  "no_attributes = \<lparr>title = None, description = None, s3Key = None, topicStatus = None,
     llamaCloudPipelineId = None, llamaCloudFileId = None, indexedAt = None,
     createdAt = None, updatedAt = None\<rparr>"

definition UpdateCommand :: "string \<Rightarrow> (Topic \<Rightarrow> Topic) \<Rightarrow> table \<Rightarrow> table" where
  \<comment> \<open>an \<open>UpdateCommand\<close> with a \<open>SET\<close> expression and no condition: the attributes named are
      written, the others kept, and an item that does not exist is created\<close>
  "UpdateCommand k f t = t(k \<mapsto> f (case t k of None \<Rightarrow> no_attributes | Some i \<Rightarrow> i))"

definition Topic_create :: "string \<Rightarrow> string \<Rightarrow> string \<Rightarrow> string \<Rightarrow> string \<Rightarrow> table \<Rightarrow> table" where
  \<comment> \<open>\<open>cookieBasedClient.models.Topic.create\<close> in \<open>saveTopicDocument\<close>: the data client assigns
      the identifier \<open>newId\<close> and the timestamps; an identifier in use is refused\<close>
  "Topic_create newId ttl descr fileKey now t =
     (if t newId = None
      then t(newId \<mapsto> \<lparr>title = Some ttl, description = Some descr, s3Key = Some fileKey,
             topicStatus = Some ''PENDING'', llamaCloudPipelineId = None,
             llamaCloudFileId = None, indexedAt = None, createdAt = Some now,
             updatedAt = Some now\<rparr>)
      else t)"

section \<open>The process environment and HTTP responses\<close>

record process_env =
  TOPIC_TABLE_NAME :: "string option"
  LLAMA_CLOUD_API_KEY :: "string option"
  LLAMA_CLOUD_PROJECT_ID :: "string option"
  ANTHROPIC_API_KEY :: "string option"

text \<open>
  What \<open>fetch\<close> resolved to: its status, and what reading the body gives, as text
  (\<open>await r.text()\<close>) and as the parsed value the handler goes on to use (\<open>await r.json()\<close>).
\<close>

record 'a Response =
  status :: nat
  body_text :: "thrown + string"
  body_json :: "thrown + 'a"

definition ok :: "'a Response \<Rightarrow> bool" where
  "ok r = (200 \<le> status r \<and> status r \<le> 299)"

definition throw_unless_ok :: "string \<Rightarrow> 'a Response \<Rightarrow> thrown + unit" where
  \<comment> \<open>\<open>if (!r.ok) { const errorText = await r.text(); throw new Error(`<what>${r.status} - ${errorText}`) }\<close>\<close>
  "throw_unless_ok what r =
     (if ok r then Inr ()
      else (case body_text r of
              Inl e \<Rightarrow> Inl e
            | Inr errorText \<Rightarrow> Inl (Error (what @ show_nat (status r) @ '' - '' @ errorText))))"

section \<open>The indexing operation: \<open>upload-to-llama-cloud/handler.ts\<close>\<close>

record upload_arguments =
  u_topicId :: string
  u_s3Key :: string
  u_rawBucketName :: string
  u_topicTitle :: string

text \<open>
  The outcome of every external call one run of the handler can make, in the order of the
  source: a \<open>docClient.send\<close> resolves (\<open>None\<close>) or rejects; the S3 object may lack a
  \<open>Body\<close>, and reading the body may reject; a \<open>fetch\<close> rejects or resolves to a
  response. The parsed body of \<open>POST /pipelines\<close> and of \<open>POST /files\<close> is read for its
  \<open>id\<close> and nothing else, so \<open>body_json\<close> of these two is the outcome of
  \<open>(await r.json()).id\<close>: any value, \<open>undefined\<close> when the body has no \<open>id\<close>. The document
  client does not marshal an \<open>undefined\<close> value of \<open>ExpressionAttributeValues\<close>, and the
  table rejects an expression that names a value the request does not define:
  \<open>undefined_value\<close> is what \<open>send\<close> rejects with then. The \<open>Date_\<close> fields are the values of
  \<open>new Date()\<close> at the four places that store a timestamp.
\<close>

record GetObjectOutput =
  Body :: "(thrown + nat list) option"

record upload_services =
  u_env :: process_env
  send_INDEXING :: "thrown option"
  Date_INDEXING :: Date
  s3_GetObject :: "thrown + GetObjectOutput"
  fetch_pipelines :: "thrown + json Response"
  fetch_files :: "thrown + json Response"
  fetch_pipeline_files :: "thrown + unit Response"
  send_READY :: "thrown option"
  undefined_value :: thrown
  Date_indexedAt :: Date
  Date_READY :: Date
  send_FAILED :: "thrown option"
  Date_FAILED :: Date

text \<open>The object the handler passes to \<open>JSON.stringify\<close> (\<open>pipelineName\<close> left out).\<close>

record upload_result =
  u_success :: bool
  u_message :: "string option"
  u_pipelineId :: "json option"
  u_fileId :: "json option"
  u_error :: "string option"

definition upload_failure :: "string \<Rightarrow> upload_result" where
  "upload_failure msg = \<lparr>u_success = False, u_message = None, u_pipelineId = None,
     u_fileId = None, u_error = Some msg\<rparr>"

definition download_pdf :: "upload_services \<Rightarrow> thrown + nat list" where
  \<comment> \<open>Step 2: Download PDF from S3\<close>
  "download_pdf w =
     (case s3_GetObject w of
        Inl e \<Rightarrow> Inl e
      | Inr getObjectResponse \<Rightarrow>
          (case Body getObjectResponse of
             None \<Rightarrow> Inl (Error ''Failed to download PDF from S3'')
           | Some transformToByteArray \<Rightarrow> transformToByteArray))"

definition create_pipeline :: "upload_services \<Rightarrow> thrown + json" where
  \<comment> \<open>Step 3: Create Llama Cloud pipeline for this topic\<close>
  "create_pipeline w =
     (case fetch_pipelines w of
        Inl e \<Rightarrow> Inl e
      | Inr createPipelineResponse \<Rightarrow>
          (case throw_unless_ok ''Failed to create pipeline: '' createPipelineResponse of
             Inl e \<Rightarrow> Inl e
           | Inr _ \<Rightarrow> body_json createPipelineResponse))"

definition upload_file :: "upload_services \<Rightarrow> thrown + json" where
  \<comment> \<open>Step 4: Upload PDF to Llama Cloud\<close>
  "upload_file w =
     (case fetch_files w of
        Inl e \<Rightarrow> Inl e
      | Inr uploadResponse \<Rightarrow>
          (case throw_unless_ok ''Failed to upload file: '' uploadResponse of
             Inl e \<Rightarrow> Inl e
           | Inr _ \<Rightarrow> body_json uploadResponse))"

definition add_file_to_pipeline :: "upload_services \<Rightarrow> thrown + unit" where
  \<comment> \<open>Step 5: Add file to pipeline (triggers indexing)\<close>
  "add_file_to_pipeline w =
     (case fetch_pipeline_files w of
        Inl e \<Rightarrow> Inl e
      | Inr addFileResponse \<Rightarrow> throw_unless_ok ''Failed to add file to pipeline: '' addFileResponse)"

definition indexing_steps :: "upload_services \<Rightarrow> (thrown + json \<times> json) \<times> json" where
  \<comment> \<open>Steps 2 to 5 in order, up to the first that throws, with the value of the variable
      \<open>pipelineId\<close> (\<open>undefined\<close> until it is assigned right after Step 3) when they end\<close>
  "indexing_steps w =
     (case download_pdf w of
        Inl e \<Rightarrow> (Inl e, JUndefined)
      | Inr pdfBuffer \<Rightarrow>
          (case create_pipeline w of
             Inl e \<Rightarrow> (Inl e, JUndefined)
           | Inr pipelineId \<Rightarrow>
               (case upload_file w of
                  Inl e \<Rightarrow> (Inl e, pipelineId)
                | Inr fileId \<Rightarrow>
                    (case add_file_to_pipeline w of
                       Inl e \<Rightarrow> (Inl e, pipelineId)
                     | Inr _ \<Rightarrow> (Inr (pipelineId, fileId), pipelineId)))))"

definition send_READY_with :: "upload_services \<Rightarrow> json \<Rightarrow> json \<Rightarrow> thrown option" where
  \<comment> \<open>the \<open>docClient.send\<close> of Step 6 with \<open>:pipelineId\<close> and \<open>:fileId\<close>\<close>
  "send_READY_with w pipelineId fileId =
     (if pipelineId = JUndefined \<or> fileId = JUndefined then Some (undefined_value w)
      else send_READY w)"

definition uploadToLlamaCloud_try ::
  "upload_arguments \<Rightarrow> upload_services \<Rightarrow> table \<Rightarrow> (thrown + upload_result) \<times> json \<times> table" where
  \<comment> \<open>the \<open>try\<close> block: what it returns or throws, the variable \<open>pipelineId\<close>, and the table\<close>
  "uploadToLlamaCloud_try a w t =
     (case send_INDEXING w of
        Some e \<Rightarrow> (Inl e, JUndefined, t)
      | None \<Rightarrow>
          (let t1 = UpdateCommand (u_topicId a)
                      (\<lambda>i. i\<lparr>topicStatus := Some ''INDEXING'',
                               updatedAt := Some (toISOString (Date_INDEXING w))\<rparr>) t
           in case indexing_steps w of
                (Inl e, pipelineId) \<Rightarrow> (Inl e, pipelineId, t1)
              | (Inr (pid, fileId), pipelineId) \<Rightarrow>
                  (case send_READY_with w pid fileId of
                     Some e \<Rightarrow> (Inl e, pipelineId, t1)
                   | None \<Rightarrow>
                       (Inr \<lparr>u_success = True,
                             u_message = Some ''PDF uploaded and indexed successfully'',
                             u_pipelineId = Some pid, u_fileId = Some fileId, u_error = None\<rparr>,
                        pipelineId,
                        UpdateCommand (u_topicId a)
                          (\<lambda>i. i\<lparr>llamaCloudPipelineId := Some pid,
                                   llamaCloudFileId := Some fileId,
                                   topicStatus := Some ''READY'',
                                   indexedAt := Some (toISOString (Date_indexedAt w)),
                                   updatedAt := Some (toISOString (Date_READY w))\<rparr>) t1))))"

definition mark_FAILED :: "upload_arguments \<Rightarrow> upload_services \<Rightarrow> json \<Rightarrow> table \<Rightarrow> table" where
  \<comment> \<open>the inner \<open>try\<close> of the \<open>catch\<close> block: a rejected write is logged and swallowed\<close>
  "mark_FAILED a w pipelineId t =
     (case send_FAILED w of
        Some updateError \<Rightarrow> t
      | None \<Rightarrow>
          UpdateCommand (u_topicId a)
            (\<lambda>i. if truthy_json pipelineId
                  then i\<lparr>topicStatus := Some ''FAILED'',
                         llamaCloudPipelineId := Some pipelineId,
                         updatedAt := Some (toISOString (Date_FAILED w))\<rparr>
                  else i\<lparr>topicStatus := Some ''FAILED'',
                         updatedAt := Some (toISOString (Date_FAILED w))\<rparr>) t)"

definition upload_configured :: "upload_services \<Rightarrow> bool" where
  \<comment> \<open>Verify environment variables: \<open>tableName\<close>, \<open>apiKey\<close> and \<open>projectId\<close> are all truthy\<close>
  "upload_configured w =
     (truthy (TOPIC_TABLE_NAME (u_env w)) \<and> truthy (LLAMA_CLOUD_API_KEY (u_env w)) \<and>
      truthy (LLAMA_CLOUD_PROJECT_ID (u_env w)))"

definition uploadToLlamaCloud_handler ::
  "upload_arguments \<Rightarrow> upload_services \<Rightarrow> table \<Rightarrow> (thrown + upload_result) \<times> table" where
  \<comment> \<open>\<open>Inr\<close>: the handler returns the object (JSON-encoded); \<open>Inl\<close>: its promise rejects\<close>
  "uploadToLlamaCloud_handler a w t =
     (if upload_configured w
      then (case uploadToLlamaCloud_try a w t of
              (Inr r, pipelineId, t') \<Rightarrow> (Inr r, t')
            | (Inl e, pipelineId, t') \<Rightarrow>
                (Inr (upload_failure (error_message e)), mark_FAILED a w pipelineId t'))
      else (Inr (upload_failure ''Missing required environment variables''), t))"

section \<open>The query operation: \<open>query-topic/handler.ts\<close>\<close>

record query_arguments =
  q_topicId :: string
  q_query :: string

datatype label = Num int | Str string

record NodeExtraInfo =
  page_label :: "label option"
  file_name :: "string option"

record RetrievalNode =
  node_text :: "string option"
  extra_info :: "NodeExtraInfo option"

text \<open>
  An element of \<open>retrieval_nodes\<close> in one of the two shapes: the passage under \<open>node\<close>
  beside \<open>score\<close>, or the passage's fields beside \<open>score\<close> with no \<open>node\<close>.
\<close>

datatype RetrievalResult =
  Wrapped RetrievalNode "real option"
  | Flat RetrievalNode "real option"

fun node :: "RetrievalResult \<Rightarrow> RetrievalNode option" where
  "node (Wrapped n s) = Some n"
| "node (Flat n s) = None"

fun score :: "RetrievalResult \<Rightarrow> real option" where
  "score (Wrapped n s) = s"
| "score (Flat n s) = s"

record LlamaCloudRetrievalResponse =
  retrieval_nodes :: "RetrievalResult list option"

datatype ContentBlock = TextBlock string | OtherBlock

record query_services =
  q_env :: process_env
  send_Get :: "thrown option"
  fetch_retrieve :: "thrown + LlamaCloudRetrievalResponse Response"
  messages_create :: "thrown + ContentBlock list"
  Date_query :: Date

record Citation =
  excerptNumber :: nat
  page :: label
  fileName :: string
  excerpt :: string
  relevanceScore :: real

record Metadata =
  topicTitle :: "string option"
  queryDate :: "string option"
  nodesRetrieved :: nat

record query_result =
  success :: bool
  answer :: "string option"
  citations :: "Citation list option"
  metadata :: "Metadata option"
  error :: "string option"

text \<open>
  The external calls of one run, in order: the read of the Topic by its identifier, the
  retrieval with the pipeline identifier that goes into its URL and the query, and the
  synthesis with its system and user prompts.
\<close>

datatype call =
  GetCommand string
  | Retrieve json string
  | MessagesCreate string string

definition query_failure :: "string \<Rightarrow> query_result" where
  "query_failure msg = \<lparr>success = False, answer = None, citations = None, metadata = None,
     error = Some msg\<rparr>"

definition TypeError_reading :: "string \<Rightarrow> thrown" where
  \<comment> \<open>reading property \<open>p\<close> of \<open>undefined\<close> throws a \<open>TypeError\<close>, which is an \<open>Error\<close>\<close>
  "TypeError_reading p =
     Error (''Cannot read properties of undefined (reading '' @ [CHR 0x27] @ p @ [CHR 0x27] @ '')'')"

fun array_map :: "('a \<Rightarrow> nat \<Rightarrow> thrown + 'b) \<Rightarrow> nat \<Rightarrow> 'a list \<Rightarrow> thrown + 'b list" where
  \<comment> \<open>\<open>Array.prototype.map\<close> with a callback of the element and its index that may throw\<close>
  "array_map f index [] = Inr []"
| "array_map f index (item # rest) =
     (case f item index of
        Inl e \<Rightarrow> Inl e
      | Inr y \<Rightarrow> (case array_map f (Suc index) rest of Inl e \<Rightarrow> Inl e | Inr ys \<Rightarrow> Inr (y # ys)))"

fun join :: "string \<Rightarrow> string list \<Rightarrow> string" where
  "join sep [] = []"
| "join sep [x] = x"
| "join sep (x # y # ys) = x @ sep @ join sep (y # ys)"

definition is_space :: "char \<Rightarrow> bool" where
  "is_space c = (c \<in> {CHR 0x09, CHR 0x0A, CHR 0x0B, CHR 0x0C, CHR 0x0D, CHR 0x20, CHR 0xA0})"

definition trim :: "string \<Rightarrow> string" where
  "trim s = rev (dropWhile is_space (rev (dropWhile is_space s)))"

definition or_Unknown :: "string option \<Rightarrow> string" where
  \<comment> \<open>\<open>v || 'Unknown'\<close> on a string\<close>
  "or_Unknown v = (case v of None \<Rightarrow> ''Unknown'' | Some s \<Rightarrow> if s = [] then ''Unknown'' else s)"

definition or_Unknown_label :: "label option \<Rightarrow> label" where
  \<comment> \<open>\<open>v || 'Unknown'\<close> on a number or a string: \<open>0\<close> and the empty string are falsy\<close>
  "or_Unknown_label v =
     (case v of
        None \<Rightarrow> Str ''Unknown''
      | Some (Num k) \<Rightarrow> if k = 0 then Str ''Unknown'' else Num k
      | Some (Str s) \<Rightarrow> if s = [] then Str ''Unknown'' else Str s)"

definition show_label :: "label \<Rightarrow> string" where
  "show_label l = (case l of Num k \<Rightarrow> show_int k | Str s \<Rightarrow> s)"

definition page_label_of :: "RetrievalNode \<Rightarrow> label option" where
  \<comment> \<open>\<open>node.extra_info?.page_label\<close>\<close>
  "page_label_of n = (case extra_info n of None \<Rightarrow> None | Some x \<Rightarrow> page_label x)"

definition file_name_of :: "RetrievalNode \<Rightarrow> string option" where
  \<comment> \<open>\<open>node.extra_info?.file_name\<close>\<close>
  "file_name_of n = (case extra_info n of None \<Rightarrow> None | Some x \<Rightarrow> file_name x)"

definition excerpt_block :: "RetrievalResult \<Rightarrow> nat \<Rightarrow> thrown + string" where
  \<comment> \<open>the callback of Step 3: Format nodes as context\<close>
  "excerpt_block item index =
     (case node item of
        None \<Rightarrow> Inl (TypeError_reading ''extra_info'')
      | Some n \<Rightarrow>
          Inr (''[Excerpt '' @ show_nat (index + 1) @ '' - Page ''
               @ show_label (or_Unknown_label (page_label_of n)) @ '']'' @ [CHR 0x0A]
               @ trim (case node_text n of None \<Rightarrow> [] | Some s \<Rightarrow> s)))"

definition excerpt_of :: "string option \<Rightarrow> string" where
  \<comment> \<open>\<open>node.text ? node.text.substring(0, 250) + '...' : ''\<close>\<close>
  "excerpt_of v =
     (case v of None \<Rightarrow> [] | Some s \<Rightarrow> if s = [] then [] else take 250 s @ ''...'')"

definition citation :: "RetrievalResult \<Rightarrow> nat \<Rightarrow> thrown + Citation" where
  \<comment> \<open>the callback of Step 5; \<open>item.score || 0\<close> is the score, or \<open>0\<close> without one\<close>
  "citation item index =
     (case node item of
        None \<Rightarrow> Inl (TypeError_reading ''extra_info'')
      | Some n \<Rightarrow>
          Inr \<lparr>excerptNumber = index + 1,
               page = or_Unknown_label (page_label_of n),
               fileName = or_Unknown (file_name_of n),
               excerpt = excerpt_of (node_text n),
               relevanceScore = (case score item of None \<Rightarrow> 0 | Some x \<Rightarrow> x)\<rparr>)"

definition systemPrompt :: string where
  "systemPrompt = join [CHR 0x0A]
     [''You are an expert assistant helping SEND specialists understand JCQ regulations and guidance documents.'',
      [],
      ''Your role is to:'',
      ''- Provide accurate, authoritative information from the source material'',
      ''- Always cite specific page numbers when making claims'',
      ''- Use clear, professional language appropriate for education professionals'',
      ''- If information is ambiguous or incomplete, acknowledge this'',
      ''- Quote directly from the source when it strengthens your answer'',
      [],
      ''Format citations as: (Page X) immediately after the relevant information.'']"

definition userPrompt :: "Topic \<Rightarrow> string \<Rightarrow> string \<Rightarrow> string" where
  "userPrompt topic query excerpts = join [CHR 0x0A]
     [''Based on the following excerpts from '' @ [CHR 0x22] @ template (title topic) @ [CHR 0x22]
        @ '', please answer this question:'',
      [],
      ''**Question**: '' @ query,
      [],
      ''**Source Excerpts**:'',
      [],
      excerpts,
      [],
      ''Please provide a clear, well-structured answer with specific page citations.'']"

definition first_text :: "ContentBlock list \<Rightarrow> thrown + string" where
  \<comment> \<open>\<open>message.content[0].type === 'text' ? message.content[0].text : ''\<close>\<close>
  "first_text content =
     (case content of
        [] \<Rightarrow> Inl (TypeError_reading ''type'')
      | TextBlock s # _ \<Rightarrow> Inr s
      | OtherBlock # _ \<Rightarrow> Inr [])"

definition retrieve :: "query_services \<Rightarrow> thrown + RetrievalResult list" where
  \<comment> \<open>Step 2: Retrieve relevant nodes from Llama Cloud; \<open>retrieval_nodes || []\<close>\<close>
  "retrieve w =
     (case fetch_retrieve w of
        Inl e \<Rightarrow> Inl e
      | Inr retrievalResponse \<Rightarrow>
          (case throw_unless_ok ''Failed to retrieve from Llama Cloud: '' retrievalResponse of
             Inl e \<Rightarrow> Inl e
           | Inr _ \<Rightarrow>
               (case body_json retrievalResponse of
                  Inl e \<Rightarrow> Inl e
                | Inr retrievalData \<Rightarrow>
                    Inr (case retrieval_nodes retrievalData of None \<Rightarrow> [] | Some ns \<Rightarrow> ns))))"

definition synthesize_and_cite ::
  "query_arguments \<Rightarrow> query_services \<Rightarrow> Topic \<Rightarrow> RetrievalResult list \<Rightarrow> call list
     \<Rightarrow> (thrown + query_result) \<times> call list" where
  \<comment> \<open>Steps 3 to 5, for a list of passages that is not empty\<close>
  "synthesize_and_cite a w topic retrievalNodes calls =
     (case array_map excerpt_block 0 retrievalNodes of
        Inl e \<Rightarrow> (Inl e, calls)
      | Inr blocks \<Rightarrow>
          (let calls' = calls @ [MessagesCreate systemPrompt
                  (userPrompt topic (q_query a)
                     (join ([CHR 0x0A, CHR 0x0A] @ ''---'' @ [CHR 0x0A, CHR 0x0A]) blocks))]
           in case messages_create w of
                Inl e \<Rightarrow> (Inl e, calls')
              | Inr content \<Rightarrow>
                  (case first_text content of
                     Inl e \<Rightarrow> (Inl e, calls')
                   | Inr answer_text \<Rightarrow>
                       (case array_map citation 0 retrievalNodes of
                          Inl e \<Rightarrow> (Inl e, calls')
                        | Inr cs \<Rightarrow>
                            (Inr \<lparr>success = True, answer = Some answer_text,
                                  citations = Some cs,
                                  metadata = Some \<lparr>topicTitle = title topic,
                                                    queryDate = Some (toISOString (Date_query w)),
                                                    nodesRetrieved = length retrievalNodes\<rparr>,
                                  error = None\<rparr>,
                             calls')))))"

definition no_relevant_information :: string where
  "no_relevant_information =
     ''I couldn'' @ [CHR 0x27] @ ''t find relevant information in the document to answer this question.''"

definition retrieve_and_answer ::
  "query_arguments \<Rightarrow> query_services \<Rightarrow> Topic \<Rightarrow> call list \<Rightarrow> (thrown + query_result) \<times> call list" where
  \<comment> \<open>Step 2 and the return for zero passages, for a Topic that passed the checks\<close>
  "retrieve_and_answer a w topic calls =
     (let calls' = calls @ [Retrieve (attribute_value (llamaCloudPipelineId topic)) (q_query a)]
      in case retrieve w of
           Inl e \<Rightarrow> (Inl e, calls')
         | Inr retrievalNodes \<Rightarrow>
             if length retrievalNodes = 0
             then (Inr \<lparr>success = True, answer = Some no_relevant_information,
                        citations = Some [],
                        metadata = Some \<lparr>topicTitle = title topic, queryDate = None,
                                          nodesRetrieved = 0\<rparr>,
                        error = None\<rparr>,
                   calls')
             else synthesize_and_cite a w topic retrievalNodes calls')"

definition queryTopic_try ::
  "query_arguments \<Rightarrow> query_services \<Rightarrow> table \<Rightarrow> (thrown + query_result) \<times> call list" where
  \<comment> \<open>the \<open>try\<close> block: what it returns or throws, and the external calls it made, in order\<close>
  "queryTopic_try a w t =
     (let calls = [GetCommand (q_topicId a)]
      in case send_Get w of
           Some e \<Rightarrow> (Inl e, calls)
         | None \<Rightarrow>
             (case t (q_topicId a) of
                None \<Rightarrow> (Inl (Error (''Topic not found: '' @ q_topicId a)), calls)
              | Some topic \<Rightarrow>
                  if topicStatus topic \<noteq> Some ''READY''
                  then (Inl (Error (''Topic is not ready for querying. Current status: ''
                                    @ template (topicStatus topic))), calls)
                  else if \<not> truthy_attribute (llamaCloudPipelineId topic)
                  then (Inl (Error ''Topic does not have a Llama Cloud pipeline ID''), calls)
                  else retrieve_and_answer a w topic calls))"

definition query_configured :: "query_services \<Rightarrow> bool" where
  \<comment> \<open>Verify environment variables: \<open>tableName\<close>, \<open>llamaCloudApiKey\<close> and \<open>anthropicApiKey\<close>
      are all truthy\<close>
  "query_configured w =
     (truthy (TOPIC_TABLE_NAME (q_env w)) \<and> truthy (LLAMA_CLOUD_API_KEY (q_env w)) \<and>
      truthy (ANTHROPIC_API_KEY (q_env w)))"

definition queryTopic_handler ::
  "query_arguments \<Rightarrow> query_services \<Rightarrow> table \<Rightarrow> (thrown + query_result) \<times> call list" where
  \<comment> \<open>\<open>Inr\<close>: the handler returns the object (JSON-encoded); \<open>Inl\<close>: its promise rejects\<close>
  "queryTopic_handler a w t =
     (if query_configured w
      then (case queryTopic_try a w t of
              (Inr r, calls) \<Rightarrow> (Inr r, calls)
            | (Inl e, calls) \<Rightarrow> (Inr (query_failure (error_message e)), calls))
      else (Inr (query_failure ''Missing required environment variables''), []))"

section \<open>The operations on the table\<close>

text \<open>
  The operations of this core that reach the table: the creation of a Topic record by
  \<open>saveTopicDocument\<close>, the indexing operation with any arguments, and the query
  operation, which only reads.
\<close>

datatype operation =
  Create string string string string string
  | Index upload_arguments upload_services
  | Query query_arguments query_services

fun apply_operation :: "operation \<Rightarrow> table \<Rightarrow> table" where
  "apply_operation (Create newId ttl descr fileKey now) t = Topic_create newId ttl descr fileKey now t"
| "apply_operation (Index a w) t = snd (uploadToLlamaCloud_handler a w t)"
| "apply_operation (Query a w) t = t"

inductive reachable :: "table \<Rightarrow> bool" where
  initial: "reachable (\<lambda>k. None)"
| step: "reachable t \<Longrightarrow> reachable (apply_operation op t)"

text \<open>
  The tables reached while the indexing service keeps to its interface: whenever the body
  of \<open>POST /pipelines\<close> or \<open>POST /files\<close> is parsed, its \<open>id\<close> is truthy.
\<close>

definition returns_id :: "thrown + json Response \<Rightarrow> bool" where
  "returns_id f =
     (case f of
        Inl e \<Rightarrow> True
      | Inr r \<Rightarrow>
          \<not> ok r \<or> (case body_json r of Inl e \<Rightarrow> True | Inr v \<Rightarrow> truthy_json v))"

fun ids_returned :: "operation \<Rightarrow> bool" where
  "ids_returned (Index a w) = (returns_id (fetch_pipelines w) \<and> returns_id (fetch_files w))"
| "ids_returned (Create newId ttl descr fileKey now) = True"
| "ids_returned (Query a w) = True"

inductive reachable_with_ids :: "table \<Rightarrow> bool" where
  initial_ids: "reachable_with_ids (\<lambda>k. None)"
| step_ids: "reachable_with_ids t \<Longrightarrow> ids_returned op \<Longrightarrow>
     reachable_with_ids (apply_operation op t)"

section \<open>The invariant of the table\<close>

definition valid_topic :: "Topic \<Rightarrow> bool" where
  "valid_topic i =
     (topicStatus i \<in> {Some ''PENDING'', Some ''INDEXING'', Some ''READY'', Some ''FAILED''} \<and>
      (topicStatus i = Some ''PENDING'' \<longrightarrow>
         llamaCloudPipelineId i = None \<and> llamaCloudFileId i = None))"

definition valid_table :: "table \<Rightarrow> bool" where
  "valid_table t = (\<forall>k i. t k = Some i \<longrightarrow> valid_topic i)"

definition ready_with_ids :: "Topic \<Rightarrow> bool" where
  "ready_with_ids i =
     (topicStatus i = Some ''READY'' \<longrightarrow>
        truthy_attribute (llamaCloudPipelineId i) \<and> truthy_attribute (llamaCloudFileId i))"

definition ready_table :: "table \<Rightarrow> bool" where
  "ready_table t = (\<forall>k i. t k = Some i \<longrightarrow> ready_with_ids i)"

section \<open>Example runs\<close>

definition example_env :: process_env where
  "example_env = \<lparr>TOPIC_TABLE_NAME = Some ''Topic-dev'', LLAMA_CLOUD_API_KEY = Some ''llx-key'',
     LLAMA_CLOUD_PROJECT_ID = Some ''project-1'', ANTHROPIC_API_KEY = Some ''sk-key''\<rparr>"

definition id_response :: "string \<Rightarrow> json Response" where
  "id_response v = \<lparr>status = 200,
     body_text = Inr (''{'' @ [CHR 0x22] @ ''id'' @ [CHR 0x22] @ '':'' @ [CHR 0x22] @ v @ [CHR 0x22] @ ''}''),
     body_json = Inr (JString v)\<rparr>"

definition null_id_response :: "json Response" where
  "null_id_response = \<lparr>status = 200,
     body_text = Inr (''{'' @ [CHR 0x22] @ ''id'' @ [CHR 0x22] @ '':null}''),
     body_json = Inr JNull\<rparr>"

definition date_at :: "nat \<Rightarrow> nat \<Rightarrow> nat \<Rightarrow> Date" where
  \<comment> \<open>a moment of 1 January 2025, 10 o'clock UTC\<close>
  "date_at m sec ms = \<lparr>UTCFullYear = 2025, UTCMonth = 0, UTCDate = 1, UTCHours = 10,
     UTCMinutes = m, UTCSeconds = sec, UTCMilliseconds = ms\<rparr>"

definition services_succeed :: upload_services where
  "services_succeed = \<lparr>u_env = example_env, send_INDEXING = None,
     Date_INDEXING = date_at 0 0 0,
     s3_GetObject = Inr \<lparr>Body = Some (Inr [37, 80, 68, 70])\<rparr>,
     fetch_pipelines = Inr (id_response ''pipe-1''),
     fetch_files = Inr (id_response ''file-1''),
     fetch_pipeline_files = Inr \<lparr>status = 200, body_text = Inr ''[]'', body_json = Inr ()\<rparr>,
     send_READY = None, undefined_value = Error ''ValidationException'',
     Date_indexedAt = date_at 0 5 0, Date_READY = date_at 0 5 2,
     send_FAILED = None, Date_FAILED = date_at 0 6 0\<rparr>"

definition example_arguments :: upload_arguments where
  "example_arguments = \<lparr>u_topicId = ''topic-1'',
     u_s3Key = ''send-connect-raw-docs/user-1/1-jcq.pdf'',
     u_rawBucketName = ''raw-docs'', u_topicTitle = ''JCQ Access Arrangements''\<rparr>"

definition table_created :: table where
  "table_created = Topic_create ''topic-1'' ''JCQ Access Arrangements'' ''Regulations''
     ''send-connect-raw-docs/user-1/1-jcq.pdf'' ''2025-01-01T09:59:00.000Z'' (\<lambda>k. None)"

definition table_ready :: table where
  "table_ready = snd (uploadToLlamaCloud_handler example_arguments services_succeed table_created)"

definition topic_ready :: Topic where
  "topic_ready = \<lparr>title = Some ''JCQ Access Arrangements'', description = Some ''Regulations'',
     s3Key = Some ''send-connect-raw-docs/user-1/1-jcq.pdf'', topicStatus = Some ''READY'',
     llamaCloudPipelineId = Some (JString ''pipe-1''), llamaCloudFileId = Some (JString ''file-1''),
     indexedAt = Some ''2025-01-01T10:00:05.000Z'', createdAt = Some ''2025-01-01T09:59:00.000Z'',
     updatedAt = Some ''2025-01-01T10:00:05.002Z''\<rparr>"

definition services_attach_500 :: upload_services where
  "services_attach_500 = services_succeed\<lparr>fetch_pipeline_files :=
     Inr \<lparr>status = 500, body_text = Inr ''Internal Server Error'',
          body_json = Inl (Error ''Unexpected token I in JSON at position 0'')\<rparr>\<rparr>"

definition services_create_400 :: upload_services where
  "services_create_400 = services_succeed\<lparr>fetch_pipelines :=
     Inr \<lparr>status = 400, body_text = Inr ''Bad Request'',
          body_json = Inl (Error ''Unexpected token B in JSON at position 0'')\<rparr>\<rparr>"

definition table_failed_attach :: table where
  "table_failed_attach =
     snd (uploadToLlamaCloud_handler example_arguments services_attach_500 table_created)"

definition topic_failed_attach :: Topic where
  "topic_failed_attach = \<lparr>title = Some ''JCQ Access Arrangements'', description = Some ''Regulations'',
     s3Key = Some ''send-connect-raw-docs/user-1/1-jcq.pdf'', topicStatus = Some ''FAILED'',
     llamaCloudPipelineId = Some (JString ''pipe-1''), llamaCloudFileId = None,
     indexedAt = None, createdAt = Some ''2025-01-01T09:59:00.000Z'',
     updatedAt = Some ''2025-01-01T10:00:06.000Z''\<rparr>"

definition topic_failed_create :: Topic where
  "topic_failed_create = \<lparr>title = Some ''JCQ Access Arrangements'', description = Some ''Regulations'',
     s3Key = Some ''send-connect-raw-docs/user-1/1-jcq.pdf'', topicStatus = Some ''FAILED'',
     llamaCloudPipelineId = None, llamaCloudFileId = None,
     indexedAt = None, createdAt = Some ''2025-01-01T09:59:00.000Z'',
     updatedAt = Some ''2025-01-01T10:00:06.000Z''\<rparr>"

definition topic_ready_then_failed :: Topic where
  "topic_ready_then_failed = topic_ready\<lparr>topicStatus := Some ''FAILED'',
     updatedAt := Some ''2025-01-01T10:00:06.000Z''\<rparr>"

definition other_arguments :: upload_arguments where
  "other_arguments = example_arguments\<lparr>u_topicId := ''topic-2''\<rparr>"

definition example_query :: query_arguments where
  "example_query = \<lparr>q_topicId = ''topic-1'', q_query = ''How much extra time may be granted?''\<rparr>"

definition node_12 :: RetrievalNode where
  "node_12 = \<lparr>node_text = Some ''Extra time of up to 25%.'',
     extra_info = Some \<lparr>page_label = Some (Num 12), file_name = Some ''jcq.pdf''\<rparr>\<rparr>"

definition node_45 :: RetrievalNode where
  "node_45 = \<lparr>node_text = Some ''Apply by the published deadline.'',
     extra_info = Some \<lparr>page_label = Some (Str ''45''), file_name = None\<rparr>\<rparr>"

definition retrieval_response :: "RetrievalResult list \<Rightarrow> LlamaCloudRetrievalResponse Response" where
  "retrieval_response ns = \<lparr>status = 200, body_text = Inr ''{...}'',
     body_json = Inr \<lparr>retrieval_nodes = Some ns\<rparr>\<rparr>"

definition query_services_two :: query_services where
  "query_services_two = \<lparr>q_env = example_env, send_Get = None,
     fetch_retrieve = Inr (retrieval_response [Wrapped node_12 (Some 0.87), Wrapped node_45 None]),
     messages_create = Inr [TextBlock ''Up to 25% extra time (Page 12).''],
     Date_query = date_at 30 0 0\<rparr>"

definition query_services_none :: query_services where
  "query_services_none = query_services_two\<lparr>fetch_retrieve := Inr (retrieval_response [])\<rparr>"

definition query_services_flat :: query_services where
  "query_services_flat = query_services_two\<lparr>fetch_retrieve :=
     Inr (retrieval_response [Flat node_12 (Some 0.87)])\<rparr>"

definition query_services_get_rejects :: query_services where
  "query_services_get_rejects = query_services_two\<lparr>send_Get := Some NonError\<rparr>"

definition services_s3_rejects :: upload_services where
  "services_s3_rejects = services_succeed\<lparr>s3_GetObject := Inl (Error ''NoSuchKey'')\<rparr>"

definition answer_two :: query_result where
  "answer_two = \<lparr>success = True, answer = Some ''Up to 25% extra time (Page 12).'',
     citations = Some
       [\<lparr>excerptNumber = 1, page = Num 12, fileName = ''jcq.pdf'',
         excerpt = ''Extra time of up to 25%....'', relevanceScore = 0.87\<rparr>,
        \<lparr>excerptNumber = 2, page = Str ''45'', fileName = ''Unknown'',
         excerpt = ''Apply by the published deadline....'', relevanceScore = 0\<rparr>],
     metadata = Some \<lparr>topicTitle = Some ''JCQ Access Arrangements'',
                       queryDate = Some ''2025-01-01T10:30:00.000Z'', nodesRetrieved = 2\<rparr>,
     error = None\<rparr>"

definition answer_none :: query_result where
  "answer_none = \<lparr>success = True, answer = Some no_relevant_information, citations = Some [],
     metadata = Some \<lparr>topicTitle = Some ''JCQ Access Arrangements'', queryDate = None,
                       nodesRetrieved = 0\<rparr>,
     error = None\<rparr>"

definition pending_refusal :: query_result where
  "pending_refusal = \<lparr>success = False, answer = None, citations = None, metadata = None,
     error = Some ''Topic is not ready for querying. Current status: PENDING''\<rparr>"

definition services_null_id :: upload_services where
  "services_null_id = services_succeed\<lparr>fetch_pipelines := Inr null_id_response\<rparr>"

definition table_ready_null :: table where
  "table_ready_null = snd (uploadToLlamaCloud_handler example_arguments services_null_id table_created)"

definition topic_ready_null :: Topic where
  "topic_ready_null = topic_ready\<lparr>llamaCloudPipelineId := Some JNull\<rparr>"

definition services_stuck :: upload_services where
  "services_stuck = services_create_400\<lparr>send_FAILED := Some (Error ''ProvisionedThroughputExceededException'')\<rparr>"

definition topic_ready_then_indexing :: Topic where
  "topic_ready_then_indexing = topic_ready\<lparr>topicStatus := Some ''INDEXING'',
     updatedAt := Some ''2025-01-01T10:00:00.000Z''\<rparr>"

section \<open>The format of \<open>toISOString\<close>\<close>

lemma replicate_small: "replicate 2 x = [x, x]" "replicate 3 x = [x, x, x]"
  "replicate 4 x = [x, x, x, x]"
  by (simp_all add: numeral_2_eq_2 numeral_3_eq_3 eval_nat_numeral)

lemma digit_char_is_digit: "n < 10 \<Longrightarrow> is_digit (digit_char n)"
  unfolding is_digit_def digit_char_def by (rule nth_mem) simp

lemma show_nat_digits: "c \<in> set (show_nat n) \<Longrightarrow> is_digit c"
proof (induction n arbitrary: c rule: show_nat.induct)
  case (1 n)
  show ?case
  proof (cases "n < 10")
    case True
    then show ?thesis using "1.prems" by (simp add: show_nat.simps[of n] digit_char_is_digit)
  next
    case False
    then have "c \<in> set (show_nat (n div 10)) \<or> c = digit_char (n mod 10)"
      using "1.prems" by (auto simp add: show_nat.simps[of n])
    then show ?thesis using "1.IH"[OF False] by (auto simp add: digit_char_is_digit)
  qed
qed

lemma show_nat_length: "n < 10 ^ k \<Longrightarrow> 0 < k \<Longrightarrow> length (show_nat n) \<le> k"
proof (induction n arbitrary: k rule: show_nat.induct)
  case (1 n)
  show ?case
  proof (cases "n < 10")
    case True
    then show ?thesis using "1.prems" by (simp add: show_nat.simps[of n])
  next
    case False
    obtain j where k: "k = Suc j" using "1.prems"(2) by (cases k) auto
    have "n div 10 < 10 ^ j" using "1.prems"(1) k by (simp add: less_mult_imp_div_less mult.commute)
    moreover have "0 < j" using False "1.prems"(1) k by (cases j) auto
    ultimately have "length (show_nat (n div 10)) \<le> j" using "1.IH"[OF False] by simp
    then show ?thesis using False k by (simp add: show_nat.simps[of n])
  qed
qed

lemma pad_digits:
  assumes "n < 10 ^ k" "0 < k"
  shows "length (pad k n) = k \<and> (\<forall>c\<in>set (pad k n). is_digit c)"
proof -
  have "length (show_nat n) \<le> k" using assms by (rule show_nat_length)
  moreover have "is_digit (CHR ''0'')" by (simp add: is_digit_def)
  ultimately show ?thesis by (auto simp add: pad_def show_nat_digits)
qed

lemma matches_digits: "\<forall>c\<in>set s. is_digit c \<Longrightarrow> matches (replicate (length s) (CHR ''d'')) s"
  by (induction s) simp_all

lemma matches_append:
  "length p = length s \<Longrightarrow> matches (p @ p') (s @ s') = (matches p s \<and> matches p' s')"
proof (induction p s rule: matches.induct)
qed simp_all

lemma matches_pad:
  assumes "n < 10 ^ k" "0 < k"
  shows "matches (replicate k (CHR ''d'') @ p') (pad k n @ s') = matches p' s'"
proof -
  have l: "length (pad k n) = k" and d: "\<forall>c\<in>set (pad k n). is_digit c"
    using pad_digits[OF assms] by simp_all
  have "matches (replicate k (CHR ''d'')) (pad k n)" using matches_digits[OF d] l by simp
  then show ?thesis using l by (simp add: matches_append)
qed

lemma toISOString_iso_8601:
  assumes "fields_in_range d"
  shows "iso_8601 (toISOString d)"
proof -
  have p: "''dddd-dd-ddTdd:dd:dd.dddZ'' =
       replicate 4 (CHR ''d'') @ CHR ''-'' # replicate 2 (CHR ''d'') @ CHR ''-'' #
       replicate 2 (CHR ''d'') @ CHR ''T'' # replicate 2 (CHR ''d'') @ CHR '':'' #
       replicate 2 (CHR ''d'') @ CHR '':'' # replicate 2 (CHR ''d'') @ CHR ''.'' #
       replicate 3 (CHR ''d'') @ ''Z''"
    by (simp add: replicate_small)
  have y: "UTCFullYear d < 10 ^ 4" and m: "Suc (UTCMonth d) < 10 ^ 2" and dd: "UTCDate d < 10 ^ 2"
    and h: "UTCHours d < 10 ^ 2" and mi: "UTCMinutes d < 10 ^ 2" and s: "UTCSeconds d < 10 ^ 2"
    and ms: "UTCMilliseconds d < 10 ^ 3" and yr: "UTCFullYear d \<le> 9999"
    using assms by (simp_all add: fields_in_range_def)
  show ?thesis
    unfolding iso_8601_def p toISOString_def
    by (simp add: yr matches_pad[OF y] matches_pad[OF m] matches_pad[OF dd] matches_pad[OF h]
        matches_pad[OF mi] matches_pad[OF s] matches_pad[OF ms])
qed

lemma date_at_in_range: "m < 60 \<Longrightarrow> sec < 60 \<Longrightarrow> ms < 1000 \<Longrightarrow> fields_in_range (date_at m sec ms)"
  by (simp add: fields_in_range_def date_at_def)

lemma iso_examples:
  "toISOString (date_at 0 0 0) = ''2025-01-01T10:00:00.000Z''"
  "toISOString (date_at 0 5 0) = ''2025-01-01T10:00:05.000Z''"
  "toISOString (date_at 0 5 2) = ''2025-01-01T10:00:05.002Z''"
  "toISOString (date_at 0 6 0) = ''2025-01-01T10:00:06.000Z''"
  "toISOString (date_at 30 0 0) = ''2025-01-01T10:30:00.000Z''"
  by (simp_all add: toISOString_def date_at_def pad_def show_nat.simps digit_char_def
      replicate_small)

section \<open>Evaluation of the model\<close>

lemmas upload_defs = uploadToLlamaCloud_handler_def uploadToLlamaCloud_try_def mark_FAILED_def
  indexing_steps_def download_pdf_def create_pipeline_def upload_file_def add_file_to_pipeline_def
  throw_unless_ok_def ok_def UpdateCommand_def Topic_create_def truthy_def upload_failure_def
  error_message_def no_attributes_def upload_configured_def send_READY_with_def

lemmas example_defs = example_env_def id_response_def services_succeed_def example_arguments_def
  table_created_def table_ready_def topic_ready_def

lemma table_ready_topic: "table_ready ''topic-1'' = Some topic_ready"
  by (simp add: upload_defs example_defs iso_examples)

lemma created_step:
  "table_created = apply_operation (Create ''topic-1'' ''JCQ Access Arrangements'' ''Regulations''
     ''send-connect-raw-docs/user-1/1-jcq.pdf'' ''2025-01-01T09:59:00.000Z'') (\<lambda>k. None)"
  by (simp add: table_created_def)

lemma reachable_table_created: "reachable table_created"
  unfolding created_step by (rule reachable.step) (rule reachable.initial)

lemma reachable_table_ready: "reachable table_ready"
proof -
  have "reachable (apply_operation (Index example_arguments services_succeed) table_created)"
    using reachable_table_created by (rule reachable.step)
  then show ?thesis by (simp add: table_ready_def)
qed

lemma reachable_with_ids_table_ready: "reachable_with_ids table_ready"
proof -
  have "reachable_with_ids table_created"
    unfolding created_step by (rule reachable_with_ids.step_ids)
      (simp_all add: reachable_with_ids.initial_ids)
  moreover have "ids_returned (Index example_arguments services_succeed)"
    by (simp add: returns_id_def services_succeed_def id_response_def ok_def)
  ultimately have
    "reachable_with_ids (apply_operation (Index example_arguments services_succeed) table_created)"
    by (rule reachable_with_ids.step_ids)
  then show ?thesis by (simp add: table_ready_def)
qed

lemma table_ready_null_topic: "table_ready_null ''topic-1'' = Some topic_ready_null"
  by (simp add: upload_defs example_defs iso_examples table_ready_null_def services_null_id_def
      null_id_response_def topic_ready_null_def)

lemma reachable_table_ready_null: "reachable table_ready_null"
proof -
  have "reachable (apply_operation (Index example_arguments services_null_id) table_created)"
    using reachable_table_created by (rule reachable.step)
  then show ?thesis by (simp add: table_ready_null_def)
qed

lemma configured_two: "query_configured query_services_two"
  by (simp add: query_configured_def query_services_two_def example_env_def truthy_def)

lemma send_Get_two: "send_Get query_services_two = None"
  by (simp add: query_services_two_def)

lemma null_pipeline_refused:
  "queryTopic_handler example_query query_services_two table_ready_null =
     (Inr (query_failure ''Topic does not have a Llama Cloud pipeline ID''), [GetCommand ''topic-1''])"
proof -
  have t: "table_ready_null (q_topicId example_query) = Some topic_ready_null"
    using table_ready_null_topic by (simp add: example_query_def)
  show ?thesis
    by (simp add: queryTopic_handler_def queryTopic_try_def Let_def configured_two send_Get_two t)
       (simp add: topic_ready_null_def topic_ready_def truthy_attribute_def attribute_value_def
          error_message_def example_query_def)
qed

section \<open>The invariant holds in every reachable table\<close>

lemma valid_UpdateCommand:
  assumes "valid_table t" and "\<And>i. valid_topic (f i)"
  shows "valid_table (UpdateCommand k f t)"
  using assms by (auto simp: valid_table_def UpdateCommand_def)

lemma valid_Topic_create: "valid_table t \<Longrightarrow> valid_table (Topic_create n a b c d t)"
  by (auto simp: valid_table_def Topic_create_def valid_topic_def)

lemma valid_try: "valid_table t \<Longrightarrow> valid_table (snd (snd (uploadToLlamaCloud_try a w t)))"
  unfolding uploadToLlamaCloud_try_def Let_def
  by (auto split: option.splits sum.splits prod.splits intro!: valid_UpdateCommand
      simp: valid_topic_def)

lemma valid_mark_FAILED: "valid_table t \<Longrightarrow> valid_table (mark_FAILED a w p t)"
  unfolding mark_FAILED_def
  by (auto split: option.splits intro!: valid_UpdateCommand simp: valid_topic_def)

lemma valid_handler: "valid_table t \<Longrightarrow> valid_table (snd (uploadToLlamaCloud_handler a w t))"
  using valid_try[of t a w]
  unfolding uploadToLlamaCloud_handler_def
  by (auto split: prod.splits sum.splits intro: valid_mark_FAILED)

lemma valid_apply: "valid_table t \<Longrightarrow> valid_table (apply_operation op t)"
  by (cases op) (simp_all add: valid_Topic_create valid_handler)

lemma reachable_valid: "reachable t \<Longrightarrow> valid_table t"
  by (induction rule: reachable.induct) (simp_all add: valid_apply, simp add: valid_table_def)

lemma steps_return_ids:
  assumes "indexing_steps w = (Inr (pid, fid), p)"
    and "returns_id (fetch_pipelines w)" "returns_id (fetch_files w)"
  shows "truthy_json pid \<and> truthy_json fid"
  using assms
  by (auto simp add: indexing_steps_def create_pipeline_def upload_file_def returns_id_def
      throw_unless_ok_def split: sum.splits if_splits)

lemma ready_UpdateCommand:
  assumes "ready_table t" and "\<And>i. ready_with_ids (f i)"
  shows "ready_table (UpdateCommand k f t)"
  using assms by (auto simp: ready_table_def UpdateCommand_def)

lemma ready_Topic_create: "ready_table t \<Longrightarrow> ready_table (Topic_create n a b c d t)"
  by (auto simp: ready_table_def Topic_create_def ready_with_ids_def)

lemma ready_try:
  assumes "ready_table t" "returns_id (fetch_pipelines w)" "returns_id (fetch_files w)"
  shows "ready_table (snd (snd (uploadToLlamaCloud_try a w t)))"
proof (cases "send_INDEXING w")
  case (Some e)
  then show ?thesis using assms(1) by (simp add: uploadToLlamaCloud_try_def)
next
  case None
  have t1: "ready_table (UpdateCommand (u_topicId a)
      (\<lambda>i. i\<lparr>topicStatus := Some ''INDEXING'',
               updatedAt := Some (toISOString (Date_INDEXING w))\<rparr>) t)"
    using assms(1) by (rule ready_UpdateCommand) (simp add: ready_with_ids_def)
  obtain res p where steps: "indexing_steps w = (res, p)" by (cases "indexing_steps w")
  show ?thesis
  proof (cases res)
    case (Inl e)
    then show ?thesis using None steps t1 by (simp add: uploadToLlamaCloud_try_def Let_def)
  next
    case (Inr ids)
    obtain pid fid where ids: "ids = (pid, fid)" by (cases ids)
    have truthy: "truthy_json pid \<and> truthy_json fid"
      using steps_return_ids[of w pid fid p] steps Inr ids assms(2,3) by simp
    have "ready_table (UpdateCommand (u_topicId a)
        (\<lambda>i. i\<lparr>llamaCloudPipelineId := Some pid, llamaCloudFileId := Some fid,
                 topicStatus := Some ''READY'',
                 indexedAt := Some (toISOString (Date_indexedAt w)),
                 updatedAt := Some (toISOString (Date_READY w))\<rparr>)
        (UpdateCommand (u_topicId a)
          (\<lambda>i. i\<lparr>topicStatus := Some ''INDEXING'',
                   updatedAt := Some (toISOString (Date_INDEXING w))\<rparr>) t))"
      using t1
      by (rule ready_UpdateCommand)
         (simp add: ready_with_ids_def truthy_attribute_def attribute_value_def truthy)
    then show ?thesis using None steps Inr ids t1
      by (simp add: uploadToLlamaCloud_try_def Let_def split: option.splits)
  qed
qed

lemma ready_mark_FAILED: "ready_table t \<Longrightarrow> ready_table (mark_FAILED a w p t)"
  unfolding mark_FAILED_def
  by (auto split: option.splits intro!: ready_UpdateCommand simp: ready_with_ids_def)

lemma ready_handler:
  assumes "ready_table t" "returns_id (fetch_pipelines w)" "returns_id (fetch_files w)"
  shows "ready_table (snd (uploadToLlamaCloud_handler a w t))"
  using ready_try[OF assms, of a] assms(1)
  unfolding uploadToLlamaCloud_handler_def
  by (auto split: prod.splits sum.splits intro: ready_mark_FAILED)

lemma ready_apply: "ready_table t \<Longrightarrow> ids_returned op \<Longrightarrow> ready_table (apply_operation op t)"
  by (cases op) (simp_all add: ready_Topic_create ready_handler)

lemma reachable_ready: "reachable_with_ids t \<Longrightarrow> ready_table t"
  by (induction rule: reachable_with_ids.induct) (simp_all add: ready_apply, simp add: ready_table_def)

text \<open>
  C1, as stated, fails: the pipeline-create call answers 200 with a body whose \<open>id\<close> is
  \<open>null\<close>, the other calls and the writes succeed, and the handler writes READY with the
  \<open>null\<close> it read; the Topic is READY with no pipeline identifier present, and the query
  handler refuses it for that reason.
\<close>

theorem READY_with_null_pipeline_counterexample:
  "reachable table_ready_null \<and> table_ready_null ''topic-1'' = Some topic_ready_null \<and>
   topicStatus topic_ready_null = Some ''READY'' \<and>
   llamaCloudPipelineId topic_ready_null = Some JNull \<and>
   \<not> truthy_attribute (llamaCloudPipelineId topic_ready_null) \<and>
   queryTopic_handler example_query query_services_two table_ready_null =
     (Inr (query_failure ''Topic does not have a Llama Cloud pipeline ID''),
      [GetCommand ''topic-1''])"
  by (simp add: reachable_table_ready_null table_ready_null_topic null_pipeline_refused)
     (simp add: topic_ready_null_def topic_ready_def truthy_attribute_def attribute_value_def)

text \<open>
  C1, amended. In every table reachable by the operations of this core (creation with
  PENDING, the indexing operation with its INDEXING, READY and FAILED writes, the query
  operation), the status of every Topic is one of PENDING, INDEXING, READY and FAILED, and
  a PENDING Topic has neither \<open>llamaCloudPipelineId\<close> nor \<open>llamaCloudFileId\<close>. The READY
  write stores the identifiers as the indexing service returned them, unchecked: a READY
  Topic has both identifiers present (truthy) in every table reached while each parsed
  body of the pipeline-create and file-upload calls carried a truthy \<open>id\<close>.
\<close>

theorem topic_invariant:
  assumes "reachable t" and "t k = Some i"
  shows "topicStatus i \<in> {Some ''PENDING'', Some ''INDEXING'', Some ''READY'', Some ''FAILED''} \<and>
      (topicStatus i = Some ''PENDING'' \<longrightarrow>
         llamaCloudPipelineId i = None \<and> llamaCloudFileId i = None) \<and>
      (reachable_with_ids t \<and> topicStatus i = Some ''READY'' \<longrightarrow>
         truthy_attribute (llamaCloudPipelineId i) \<and> truthy_attribute (llamaCloudFileId i))"
proof -
  have "valid_topic i"
    using reachable_valid[OF assms(1)] assms(2) unfolding valid_table_def by blast
  moreover have "ready_with_ids i" if "reachable_with_ids t"
    using reachable_ready[OF that] assms(2) unfolding ready_table_def by blast
  ultimately show ?thesis unfolding valid_topic_def ready_with_ids_def by blast
qed

theorem topic_invariant_witness:
  "reachable table_ready \<and> reachable_with_ids table_ready \<and>
   table_ready ''topic-1'' = Some topic_ready \<and>
   topicStatus topic_ready = Some ''READY'' \<and>
   llamaCloudPipelineId topic_ready = Some (JString ''pipe-1'') \<and>
   llamaCloudFileId topic_ready = Some (JString ''file-1'') \<and>
   truthy_attribute (llamaCloudPipelineId topic_ready) \<and>
   truthy_attribute (llamaCloudFileId topic_ready)"
  using topic_invariant[OF reachable_table_ready table_ready_topic]
  by (simp add: reachable_table_ready reachable_with_ids_table_ready table_ready_topic)
     (simp add: topic_ready_def)

section \<open>The indexing operation: failures and the READY status\<close>

lemmas failure_defs = services_attach_500_def services_create_400_def table_failed_attach_def
  topic_failed_attach_def topic_failed_create_def

lemma show_400: "show_nat 400 = ''400''"
  by (simp add: show_nat.simps digit_char_def)

lemma create_400: "create_pipeline services_create_400 = Inl (Error ''Failed to create pipeline: 400 - Bad Request'')"
  by (simp add: upload_defs example_defs failure_defs show_400 iso_examples)

lemma table_failed_attach_topic: "table_failed_attach ''topic-1'' = Some topic_failed_attach"
  by (simp add: upload_defs example_defs failure_defs iso_examples)

text \<open>
  C2, as stated, fails: a Topic that an earlier run left FAILED with the identifier of the
  pipeline it had created (its attach step failed) is indexed again, the pipeline-create
  call returns HTTP 400 and every write succeeds; the Topic ends FAILED and still holds
  the earlier \<open>llamaCloudPipelineId\<close>.
\<close>

theorem failed_create_keeps_earlier_pipeline_counterexample:
  "table_failed_attach ''topic-1'' = Some topic_failed_attach \<and>
   llamaCloudPipelineId topic_failed_attach = Some (JString ''pipe-1'') \<and>
   create_pipeline services_create_400 = Inl (Error ''Failed to create pipeline: 400 - Bad Request'') \<and>
   send_INDEXING services_create_400 = None \<and> send_FAILED services_create_400 = None \<and>
   snd (uploadToLlamaCloud_handler example_arguments services_create_400 table_failed_attach) ''topic-1''
     = Some topic_failed_attach"
  by (simp add: table_failed_attach_topic create_400)
     (simp add: upload_defs example_defs failure_defs show_400 iso_examples)

lemma indexing_steps_pipelineId:
  "snd (indexing_steps w) =
     (case download_pdf w of Inl e \<Rightarrow> JUndefined
      | Inr pdf \<Rightarrow> (case create_pipeline w of Inl e \<Rightarrow> JUndefined | Inr pid \<Rightarrow> pid))"
  by (simp add: indexing_steps_def split: sum.splits)

lemma failed_run:
  assumes "upload_configured w" "send_INDEXING w = None" "indexing_steps w = (Inl e, p)"
  shows "uploadToLlamaCloud_handler a w t =
     (Inr (upload_failure (error_message e)),
      mark_FAILED a w p (UpdateCommand (u_topicId a)
         (\<lambda>i. i\<lparr>topicStatus := Some ''INDEXING'', updatedAt := Some (toISOString (Date_INDEXING w))\<rparr>) t))"
  using assms by (simp add: uploadToLlamaCloud_handler_def uploadToLlamaCloud_try_def Let_def)

lemma not_ok_create:
  assumes "fetch_pipelines w = Inr r" "\<not> ok r"
  shows "\<exists>e. create_pipeline w = Inl e"
  using assms by (simp add: create_pipeline_def throw_unless_ok_def split: sum.splits)

text \<open>
  C2, amended. In every run of the indexing operation in which one of the four steps
  (blob download, pipeline create, file upload, file attach) fails while the store writes
  succeed, the Topic ends with status FAILED; the run writes \<open>llamaCloudPipelineId\<close> if
  and only if the pipeline-create step had succeeded with a truthy identifier (a string
  that is not empty, in the service's interface), and otherwise leaves
  \<open>llamaCloudPipelineId\<close> as it was before the run; \<open>llamaCloudFileId\<close> is left as it was.
  In particular, when the pipeline-create call returns a non-success HTTP status such as
  400 for a Topic that had neither identifier before the run, the Topic ends FAILED with
  neither.
\<close>

theorem failed_step_marks_FAILED:
  assumes env: "upload_configured w"
    and writes: "send_INDEXING w = None" "send_FAILED w = None"
    and fails: "fst (indexing_steps w) = Inl e"
    and before: "before = (case t (u_topicId a) of None \<Rightarrow> no_attributes | Some i \<Rightarrow> i)"
  shows "\<exists>after. snd (uploadToLlamaCloud_handler a w t) (u_topicId a) = Some after \<and>
     topicStatus after = Some ''FAILED'' \<and>
     llamaCloudPipelineId after =
       (case download_pdf w of
          Inl e1 \<Rightarrow> llamaCloudPipelineId before
        | Inr pdf \<Rightarrow>
            (case create_pipeline w of
               Inl e2 \<Rightarrow> llamaCloudPipelineId before
             | Inr pid \<Rightarrow> if truthy_json pid then Some pid
                          else llamaCloudPipelineId before)) \<and>
     llamaCloudFileId after = llamaCloudFileId before \<and>
     (\<forall>r. fetch_pipelines w = Inr r \<and> \<not> ok r \<and> llamaCloudPipelineId before = None \<and>
          llamaCloudFileId before = None
        \<longrightarrow> llamaCloudPipelineId after = None \<and> llamaCloudFileId after = None)"
proof -
  obtain p where steps: "indexing_steps w = (Inl e, p)"
    using fails by (cases "indexing_steps w") simp
  have p: "p = (case download_pdf w of Inl e \<Rightarrow> JUndefined
      | Inr pdf \<Rightarrow> (case create_pipeline w of Inl e \<Rightarrow> JUndefined | Inr pid \<Rightarrow> pid))"
    using indexing_steps_pipelineId[of w] steps by simp
  have not_ok: "\<exists>e. create_pipeline w = Inl e" if "fetch_pipelines w = Inr r" "\<not> ok r" for r
    using not_ok_create[OF that] .
  show ?thesis
    unfolding failed_run[OF env writes(1) steps]
    using writes(2) not_ok
    by (auto simp: mark_FAILED_def UpdateCommand_def before p split: sum.splits option.splits)
qed

theorem failed_step_marks_FAILED_witness:
  "upload_configured services_create_400 \<and>
   send_INDEXING services_create_400 = None \<and> send_FAILED services_create_400 = None \<and>
   fst (indexing_steps services_create_400) = Inl (Error ''Failed to create pipeline: 400 - Bad Request'') \<and>
   snd (uploadToLlamaCloud_handler example_arguments services_create_400 table_created) ''topic-1''
     = Some topic_failed_create"
  using failed_step_marks_FAILED[of services_create_400
      "Error ''Failed to create pipeline: 400 - Bad Request''" _ table_created example_arguments]
  by (simp add: upload_defs example_defs failure_defs show_400 iso_examples)

text \<open>
  C4, as stated, fails: the indexing operation invoked with the identifier of a READY
  Topic writes its status without reading it; with a pipeline-create call that returns
  HTTP 400 the Topic ends FAILED.
\<close>

theorem reindexing_leaves_READY_counterexample:
  "reachable table_ready \<and> table_ready ''topic-1'' = Some topic_ready \<and>
   topicStatus topic_ready = Some ''READY'' \<and>
   apply_operation (Index example_arguments services_create_400) table_ready ''topic-1''
     = Some topic_ready_then_failed \<and>
   topicStatus topic_ready_then_failed = Some ''FAILED''"
proof -
  have "snd (uploadToLlamaCloud_handler example_arguments services_create_400 table_ready) ''topic-1''
     = Some topic_ready_then_failed"
    by (simp add: upload_defs example_defs failure_defs show_400 topic_ready_then_failed_def iso_examples)
  then show ?thesis
    by (simp add: reachable_table_ready table_ready_topic)
       (simp add: topic_ready_def topic_ready_then_failed_def)
qed

lemma UpdateCommand_other: "j \<noteq> k \<Longrightarrow> UpdateCommand j f t k = t k"
  by (simp add: UpdateCommand_def)

lemma try_other: "u_topicId a \<noteq> k \<Longrightarrow> snd (snd (uploadToLlamaCloud_try a w t)) k = t k"
  by (simp add: uploadToLlamaCloud_try_def Let_def UpdateCommand_other
      split: option.splits sum.splits prod.splits)

lemma mark_FAILED_other: "u_topicId a \<noteq> k \<Longrightarrow> mark_FAILED a w p t k = t k"
  by (simp add: mark_FAILED_def UpdateCommand_other split: option.splits)

lemma handler_other: "u_topicId a \<noteq> k \<Longrightarrow> snd (uploadToLlamaCloud_handler a w t) k = t k"
  using try_other[of a k w t]
  by (auto simp add: uploadToLlamaCloud_handler_def mark_FAILED_other split: prod.splits sum.splits)

lemma Topic_create_existing: "t k = Some i \<Longrightarrow> Topic_create n a b c d t k = Some i"
  by (auto simp add: Topic_create_def)

lemma handler_unconfigured:
  "\<not> upload_configured w \<Longrightarrow> snd (uploadToLlamaCloud_handler a w t) = t"
  by (simp add: uploadToLlamaCloud_handler_def)

lemma handler_first_write_rejected:
  assumes "upload_configured w" "send_INDEXING w = Some e" "t (u_topicId a) = Some i"
  shows "\<exists>i'. snd (uploadToLlamaCloud_handler a w t) (u_topicId a) = Some i' \<and>
     topicStatus i' = (case send_FAILED w of None \<Rightarrow> Some ''FAILED'' | Some e' \<Rightarrow> topicStatus i)"
  using assms
  by (auto simp add: uploadToLlamaCloud_handler_def uploadToLlamaCloud_try_def
      mark_FAILED_def UpdateCommand_def split: option.splits)

lemma handler_same:
  assumes "upload_configured w" "send_INDEXING w = None"
  shows "\<exists>i'. snd (uploadToLlamaCloud_handler a w t) (u_topicId a) = Some i' \<and>
     topicStatus i' =
       (case fst (indexing_steps w) of
          Inl e \<Rightarrow> (case send_FAILED w of None \<Rightarrow> Some ''FAILED'' | Some e' \<Rightarrow> Some ''INDEXING'')
        | Inr (pid, fid) \<Rightarrow>
            (case send_READY_with w pid fid of
               None \<Rightarrow> Some ''READY''
             | Some e \<Rightarrow>
                 (case send_FAILED w of None \<Rightarrow> Some ''FAILED'' | Some e' \<Rightarrow> Some ''INDEXING'')))"
proof (cases "indexing_steps w")
  case (Pair res p)
  show ?thesis
  proof (cases res)
    case (Inl e)
    then show ?thesis using assms Pair
      by (auto simp add: uploadToLlamaCloud_handler_def uploadToLlamaCloud_try_def Let_def
          mark_FAILED_def UpdateCommand_def split: option.splits)
  next
    case (Inr ids)
    obtain pid fid where ids: "ids = (pid, fid)" by (cases ids)
    show ?thesis
    proof (cases "send_READY_with w pid fid")
      case None
      then show ?thesis using assms Pair Inr ids
        by (simp add: uploadToLlamaCloud_handler_def uploadToLlamaCloud_try_def Let_def
            UpdateCommand_def)
    next
      case (Some e)
      then show ?thesis using assms Pair Inr ids
        by (auto simp add: uploadToLlamaCloud_handler_def uploadToLlamaCloud_try_def Let_def
            mark_FAILED_def UpdateCommand_def split: option.splits)
    qed
  qed
qed

text \<open>
  C4, amended. Topic creation, the query operation and the indexing operation invoked with
  another Topic's identifier leave a READY Topic as it is. The indexing operation invoked
  with the READY Topic's own identifier is not guarded by the status. In a configured
  environment it writes INDEXING first, then READY when all four steps succeed, and FAILED
  when a step or the READY write fails; the Topic ends with the status of the last write
  that succeeded: READY, FAILED, INDEXING when the FAILED write fails after the INDEXING
  write, and still READY only when the INDEXING and FAILED writes both fail. Without the
  environment variables it writes nothing.
\<close>

theorem READY_kept_unless_reindexed:
  assumes "t k = Some i" and "topicStatus i = Some ''READY''"
  shows "((case op of Index a w \<Rightarrow> u_topicId a \<noteq> k | _ \<Rightarrow> True) \<longrightarrow>
            apply_operation op t k = Some i) \<and>
         (\<forall>a w. op = Index a w \<and> u_topicId a = k \<longrightarrow>
            (\<not> upload_configured w \<longrightarrow> apply_operation op t k = Some i) \<and>
            (upload_configured w \<longrightarrow>
               (\<exists>i'. apply_operation op t k = Some i' \<and>
                  topicStatus i' =
                    (case send_INDEXING w of
                       Some e \<Rightarrow>
                         (case send_FAILED w of
                            None \<Rightarrow> Some ''FAILED'' | Some e' \<Rightarrow> Some ''READY'')
                     | None \<Rightarrow>
                         (case fst (indexing_steps w) of
                            Inl e \<Rightarrow>
                              (case send_FAILED w of
                                 None \<Rightarrow> Some ''FAILED'' | Some e' \<Rightarrow> Some ''INDEXING'')
                          | Inr (pid, fid) \<Rightarrow>
                              (case send_READY_with w pid fid of
                                 None \<Rightarrow> Some ''READY''
                               | Some e \<Rightarrow>
                                   (case send_FAILED w of
                                      None \<Rightarrow> Some ''FAILED''
                                    | Some e' \<Rightarrow> Some ''INDEXING'')))))))"
proof (intro conjI impI allI)
  assume "case op of Index a w \<Rightarrow> u_topicId a \<noteq> k | _ \<Rightarrow> True"
  then show "apply_operation op t k = Some i"
    using assms(1) by (cases op) (simp_all add: Topic_create_existing handler_other)
next
  fix a w
  assume "op = Index a w \<and> u_topicId a = k" and "\<not> upload_configured w"
  then show "apply_operation op t k = Some i"
    using assms(1) by (simp add: handler_unconfigured)
next
  fix a w
  assume h: "op = Index a w \<and> u_topicId a = k" and c: "upload_configured w"
  show "\<exists>i'. apply_operation op t k = Some i' \<and>
          topicStatus i' =
            (case send_INDEXING w of
               Some e \<Rightarrow>
                 (case send_FAILED w of
                    None \<Rightarrow> Some ''FAILED'' | Some e' \<Rightarrow> Some ''READY'')
             | None \<Rightarrow>
                 (case fst (indexing_steps w) of
                    Inl e \<Rightarrow>
                      (case send_FAILED w of
                         None \<Rightarrow> Some ''FAILED'' | Some e' \<Rightarrow> Some ''INDEXING'')
                  | Inr (pid, fid) \<Rightarrow>
                      (case send_READY_with w pid fid of
                         None \<Rightarrow> Some ''READY''
                       | Some e \<Rightarrow>
                           (case send_FAILED w of
                              None \<Rightarrow> Some ''FAILED''
                            | Some e' \<Rightarrow> Some ''INDEXING''))))"
  proof (cases "send_INDEXING w")
    case None
    then show ?thesis using handler_same[OF c None, of a t] h by simp
  next
    case (Some e)
    have "t (u_topicId a) = Some i" using h assms(1) by simp
    from handler_first_write_rejected[where t = t and a = a, OF c Some this] show ?thesis
      using h Some assms(2) by (auto split: option.splits)
  qed
qed

lemma stuck_indexing:
  "snd (uploadToLlamaCloud_handler example_arguments services_stuck table_ready) ''topic-1''
     = Some topic_ready_then_indexing"
  by (simp add: upload_defs example_defs failure_defs show_400 iso_examples services_stuck_def
      topic_ready_then_indexing_def)

theorem READY_kept_unless_reindexed_witness:
  "table_ready ''topic-1'' = Some topic_ready \<and> topicStatus topic_ready = Some ''READY'' \<and>
   u_topicId other_arguments \<noteq> ''topic-1'' \<and>
   apply_operation (Index other_arguments services_create_400) table_ready ''topic-1''
     = Some topic_ready \<and>
   u_topicId example_arguments = ''topic-1'' \<and> upload_configured services_stuck \<and>
   send_INDEXING services_stuck = None \<and>
   fst (indexing_steps services_stuck)
     = Inl (Error ''Failed to create pipeline: 400 - Bad Request'') \<and>
   send_FAILED services_stuck = Some (Error ''ProvisionedThroughputExceededException'') \<and>
   apply_operation (Index example_arguments services_stuck) table_ready ''topic-1''
     = Some topic_ready_then_indexing \<and>
   topicStatus topic_ready_then_indexing = Some ''INDEXING''"
  using READY_kept_unless_reindexed[of table_ready "''topic-1''" topic_ready
      "Index other_arguments services_create_400"]
    READY_kept_unless_reindexed[of table_ready "''topic-1''" topic_ready
      "Index example_arguments services_stuck"]
  by (simp add: table_ready_topic stuck_indexing)
     (simp add: other_arguments_def topic_ready_then_indexing_def upload_defs example_defs
        failure_defs show_400 services_stuck_def)

section \<open>The query operation\<close>

lemma array_map_length: "array_map f i xs = Inr ys \<Longrightarrow> length ys = length xs"
  by (induction xs arbitrary: i ys) (auto split: sum.splits)

lemma array_map_nth:
  "array_map f i xs = Inr ys \<Longrightarrow> k < length xs \<Longrightarrow> f (xs ! k) (i + k) = Inr (ys ! k)"
proof (induction xs arbitrary: i ys k)
  case Nil
  then show ?case by simp
next
  case (Cons x xs)
  from Cons.prems(1) obtain y ys' where fx: "f x i = Inr y"
    and rest: "array_map f (Suc i) xs = Inr ys'" and ys: "ys = y # ys'"
    by (auto split: sum.splits)
  show ?case
  proof (cases k)
    case 0
    then show ?thesis using fx ys by simp
  next
    case (Suc j)
    then have "j < length xs" using Cons.prems(2) by simp
    from Cons.IH[OF rest this] show ?thesis using Suc ys by simp
  qed
qed

lemma array_map_total:
  "(\<And>x j. x \<in> set xs \<Longrightarrow> \<exists>y. f x j = Inr y) \<Longrightarrow> \<exists>ys. array_map f i xs = Inr ys"
proof (induction xs arbitrary: i)
  case Nil
  then show ?case by simp
next
  case (Cons x xs)
  obtain y where "f x i = Inr y" using Cons.prems[of x i] by auto
  moreover obtain ys where "array_map f (Suc i) xs = Inr ys"
    using Cons.IH[of "Suc i"] Cons.prems by auto
  ultimately show ?case by simp
qed

lemma array_map_throws:
  "x \<in> set xs \<Longrightarrow> (\<And>y j. y \<in> set xs \<Longrightarrow> f y j = Inl e \<or> (\<exists>v. f y j = Inr v)) \<Longrightarrow> (\<And>j. f x j = Inl e)
     \<Longrightarrow> array_map f i xs = Inl e"
proof (induction xs arbitrary: i)
  case Nil
  then show ?case by simp
next
  case (Cons z zs)
  show ?case
  proof (cases "f z i")
    case (Inl e')
    then have "e' = e" using Cons.prems(2)[of z i] by auto
    then show ?thesis using Inl by simp
  next
    case (Inr v)
    then have "x \<noteq> z" using Cons.prems(3)[of i] by auto
    then have "x \<in> set zs" using Cons.prems(1) by simp
    then have "array_map f (Suc i) zs = Inl e"
      using Cons.IH[of "Suc i"] Cons.prems(2,3) by auto
    then show ?thesis using Inr by simp
  qed
qed

lemma excerpt_block_cases:
  "excerpt_block x j = Inl (TypeError_reading ''extra_info'') \<or> (\<exists>v. excerpt_block x j = Inr v)"
  by (simp add: excerpt_block_def split: option.splits)

lemma excerpt_block_wrapped: "node x \<noteq> None \<Longrightarrow> \<exists>v. excerpt_block x j = Inr v"
  by (auto simp add: excerpt_block_def split: option.splits)

lemma citation_wrapped: "node x \<noteq> None \<Longrightarrow> \<exists>v. citation x j = Inr v"
  by (auto simp add: citation_def split: option.splits)

lemma excerpt_block_flat: "node x = None \<Longrightarrow> excerpt_block x j = Inl (TypeError_reading ''extra_info'')"
  by (simp add: excerpt_block_def)

lemma blocks_flat:
  assumes "x \<in> set items" "node x = None"
  shows "array_map excerpt_block i items = Inl (TypeError_reading ''extra_info'')"
  using assms(1)
  by (rule array_map_throws) (simp_all add: excerpt_block_cases excerpt_block_flat assms(2))

lemma handler_ready:
  assumes "query_configured w" "send_Get w = None" "t (q_topicId a) = Some topic"
    "topicStatus topic = Some ''READY''" "truthy_attribute (llamaCloudPipelineId topic)"
    "retrieve w = Inr items" "items \<noteq> []"
  shows "queryTopic_handler a w t =
     (case synthesize_and_cite a w topic items
             [GetCommand (q_topicId a), Retrieve (attribute_value (llamaCloudPipelineId topic)) (q_query a)] of
        (Inr r, calls) \<Rightarrow> (Inr r, calls)
      | (Inl e, calls) \<Rightarrow> (Inr (query_failure (error_message e)), calls))"
  using assms
  by (simp add: queryTopic_handler_def queryTopic_try_def retrieve_and_answer_def Let_def)

lemma synthesize_wrapped:
  assumes "\<forall>x\<in>set items. node x \<noteq> None" "messages_create w = Inr content" "content \<noteq> []"
  shows "\<exists>blocks answer_text cs. array_map citation 0 items = Inr cs \<and>
     array_map excerpt_block 0 items = Inr blocks \<and> first_text content = Inr answer_text \<and>
     synthesize_and_cite a w topic items calls =
       (Inr \<lparr>success = True, answer = Some answer_text, citations = Some cs,
             metadata = Some \<lparr>topicTitle = title topic, queryDate = Some (toISOString (Date_query w)),
                               nodesRetrieved = length items\<rparr>,
             error = None\<rparr>,
        calls @ [MessagesCreate systemPrompt (userPrompt topic (q_query a)
                     (join ([CHR 0x0A, CHR 0x0A] @ ''---'' @ [CHR 0x0A, CHR 0x0A]) blocks))])"
proof -
  obtain blocks where b: "array_map excerpt_block 0 items = Inr blocks"
    using array_map_total[of items excerpt_block 0] excerpt_block_wrapped assms(1) by blast
  obtain cs where c: "array_map citation 0 items = Inr cs"
    using array_map_total[of items citation 0] citation_wrapped assms(1) by blast
  have "\<exists>answer_text. first_text content = Inr answer_text"
    using assms(3) by (cases content) (auto simp: first_text_def split: ContentBlock.splits)
  then obtain answer_text where f: "first_text content = Inr answer_text" ..
  show ?thesis using b c f assms(2)
    by (simp add: synthesize_and_cite_def Let_def)
qed

lemma citation_nth:
  assumes "array_map citation 0 items = Inr cs" "k < length items" "node (items ! k) = Some n"
  shows "cs ! k = \<lparr>excerptNumber = k + 1, page = or_Unknown_label (page_label_of n),
     fileName = or_Unknown (file_name_of n), excerpt = excerpt_of (node_text n),
     relevanceScore = (case score (items ! k) of None \<Rightarrow> 0 | Some x \<Rightarrow> x)\<rparr>"
  using array_map_nth[OF assms(1,2)] assms(3) by (simp add: citation_def)

lemma retrieve_two: "retrieve query_services_two = Inr [Wrapped node_12 (Some 0.87), Wrapped node_45 None]"
  by (simp add: retrieve_def throw_unless_ok_def ok_def query_services_two_def retrieval_response_def)

lemma retrieve_none: "retrieve query_services_none = Inr []"
  by (simp add: retrieve_def throw_unless_ok_def ok_def query_services_none_def query_services_two_def retrieval_response_def)

lemma retrieve_flat: "retrieve query_services_flat = Inr [Flat node_12 (Some 0.87)]"
  by (simp add: retrieve_def throw_unless_ok_def ok_def query_services_flat_def query_services_two_def retrieval_response_def)

lemma fst_catch:
  "fst X = Inr r \<Longrightarrow>
   fst (case X of (Inr r, calls) \<Rightarrow> (Inr r, calls) | (Inl e, calls) \<Rightarrow> (Inr (f e), calls)) = Inr r"
  by (cases X) (auto split: sum.splits)

lemma ready_topic_1: "table_ready (q_topicId example_query) = Some topic_ready"
  using table_ready_topic by (simp add: example_query_def)

lemma topic_ready_status: "topicStatus topic_ready = Some ''READY''"
  by (simp add: topic_ready_def)

lemma topic_ready_pipeline: "truthy_attribute (llamaCloudPipelineId topic_ready)"
  by (simp add: topic_ready_def truthy_attribute_def attribute_value_def)

lemma answer_two_eval:
  "fst (queryTopic_handler example_query query_services_two table_ready) = Inr answer_two"
proof -
  have s: "send_Get query_services_two = None" by (simp add: query_services_two_def)
  have ne: "[Wrapped node_12 (Some 0.87), Wrapped node_45 None] \<noteq> []" by simp
  note h = handler_ready[where t = table_ready and a = example_query, OF configured_two s ready_topic_1 topic_ready_status
      topic_ready_pipeline retrieve_two ne]
  have "fst (synthesize_and_cite example_query query_services_two topic_ready
     [Wrapped node_12 (Some 0.87), Wrapped node_45 None] calls) = Inr answer_two" for calls
    by (simp add: synthesize_and_cite_def Let_def excerpt_block_def citation_def first_text_def
        excerpt_of_def or_Unknown_def or_Unknown_label_def page_label_of_def file_name_of_def
        node_12_def node_45_def query_services_two_def answer_two_def topic_ready_def
        iso_examples)
  then show ?thesis unfolding h by (rule fst_catch)
qed


lemma wrapped_answer:
  assumes "query_configured w" "send_Get w = None" "t (q_topicId a) = Some topic"
    "topicStatus topic = Some ''READY''" "truthy_attribute (llamaCloudPipelineId topic)"
    "retrieve w = Inr items" "items \<noteq> []" "\<forall>x\<in>set items. node x \<noteq> None"
    "messages_create w = Inr content" "content \<noteq> []"
  shows "\<exists>r cs. fst (queryTopic_handler a w t) = Inr r \<and> success r \<and> citations r = Some cs \<and>
     array_map citation 0 items = Inr cs"
proof -
  note h = handler_ready[where t = t and a = a, OF assms(1-7)]
  obtain blocks answer_text cs where cs: "array_map citation 0 items = Inr cs"
    and syn: "synthesize_and_cite a w topic items
        [GetCommand (q_topicId a), Retrieve (attribute_value (llamaCloudPipelineId topic)) (q_query a)] =
       (Inr \<lparr>success = True, answer = Some answer_text, citations = Some cs,
             metadata = Some \<lparr>topicTitle = title topic, queryDate = Some (toISOString (Date_query w)),
                               nodesRetrieved = length items\<rparr>,
             error = None\<rparr>,
        [GetCommand (q_topicId a), Retrieve (attribute_value (llamaCloudPipelineId topic)) (q_query a)]
          @ [MessagesCreate systemPrompt (userPrompt topic (q_query a)
                     (join ([CHR 0x0A, CHR 0x0A] @ ''---'' @ [CHR 0x0A, CHR 0x0A]) blocks))])"
    using synthesize_wrapped[OF assms(8-10), of a topic
        "[GetCommand (q_topicId a), Retrieve (attribute_value (llamaCloudPipelineId topic)) (q_query a)]"]
    by blast
  show ?thesis unfolding h syn using cs by simp
qed

text \<open>
  C3, as stated, fails: a passage of 24 characters, which does not exceed 250, is cited
  with the ellipsis marker appended.
\<close>

theorem short_passage_gets_ellipsis_counterexample:
  "retrieve query_services_two = Inr [Wrapped node_12 (Some 0.87), Wrapped node_45 None] \<and>
   node_text node_12 = Some ''Extra time of up to 25%.'' \<and>
   length ''Extra time of up to 25%.'' = 24 \<and>
   fst (queryTopic_handler example_query query_services_two table_ready) = Inr answer_two \<and>
   citations answer_two = Some
       [\<lparr>excerptNumber = 1, page = Num 12, fileName = ''jcq.pdf'',
         excerpt = ''Extra time of up to 25%....'', relevanceScore = 0.87\<rparr>,
        \<lparr>excerptNumber = 2, page = Str ''45'', fileName = ''Unknown'',
         excerpt = ''Apply by the published deadline....'', relevanceScore = 0\<rparr>]"
  by (simp add: retrieve_two answer_two_eval) (simp add: node_12_def answer_two_def)

text \<open>
  C3, amended. For every query of a READY Topic (pipeline identifier present) whose
  retrieval returns N \<ge> 1 passages, each under \<open>node\<close>, and whose synthesis call returns a
  message with content, the response has exactly N citations, numbered 1..N in the order
  of the retrieved passages; each excerpt is the first 250 characters of the passage text
  followed by the ellipsis marker whenever the text is not empty, whether or not it
  exceeds 250 characters, and is empty for an empty or absent text.
\<close>

theorem citations_numbered_in_retrieval_order:
  assumes "query_configured w" "send_Get w = None" "t (q_topicId a) = Some topic"
    "topicStatus topic = Some ''READY''" "truthy_attribute (llamaCloudPipelineId topic)"
    "retrieve w = Inr items" "items \<noteq> []" "\<forall>x\<in>set items. node x \<noteq> None"
    "messages_create w = Inr content" "content \<noteq> []"
  shows "\<exists>r cs. fst (queryTopic_handler a w t) = Inr r \<and> success r \<and> citations r = Some cs \<and>
     length cs = length items \<and>
     (\<forall>k<length items. excerptNumber (cs ! k) = k + 1 \<and>
        (\<forall>n. node (items ! k) = Some n \<longrightarrow>
           excerpt (cs ! k) =
             (case node_text n of
                None \<Rightarrow> []
              | Some s \<Rightarrow> if s = [] then [] else take 250 s @ ''...'')))"
proof -
  obtain r cs where r: "fst (queryTopic_handler a w t) = Inr r" "success r" "citations r = Some cs"
    and cs: "array_map citation 0 items = Inr cs"
    using wrapped_answer[where t = t and a = a, OF assms] by blast
  have len: "length cs = length items" using cs by (rule array_map_length)
  have each: "excerptNumber (cs ! k) = k + 1 \<and>
        (\<forall>n. node (items ! k) = Some n \<longrightarrow>
           excerpt (cs ! k) =
             (case node_text n of
                None \<Rightarrow> []
              | Some s \<Rightarrow> if s = [] then [] else take 250 s @ ''...''))" if k: "k < length items" for k
  proof -
    have "items ! k \<in> set items" using k by simp
    then obtain n where n: "node (items ! k) = Some n" using assms(8) by auto
    show ?thesis using citation_nth[OF cs k n] n by (simp add: excerpt_of_def)
  qed
  show ?thesis using r len each by blast
qed

theorem citations_numbered_in_retrieval_order_witness:
  "query_configured query_services_two \<and> send_Get query_services_two = None \<and>
   table_ready (q_topicId example_query) = Some topic_ready \<and>
   topicStatus topic_ready = Some ''READY'' \<and> truthy_attribute (llamaCloudPipelineId topic_ready) \<and>
   retrieve query_services_two = Inr [Wrapped node_12 (Some 0.87), Wrapped node_45 None] \<and>
   node (Wrapped node_12 (Some 0.87)) = Some node_12 \<and> node (Wrapped node_45 None) = Some node_45 \<and>
   messages_create query_services_two = Inr [TextBlock ''Up to 25% extra time (Page 12).''] \<and>
   fst (queryTopic_handler example_query query_services_two table_ready) = Inr answer_two \<and>
   success answer_two"
  using citations_numbered_in_retrieval_order[where t = table_ready and a = example_query
      and w = query_services_two and topic = topic_ready
      and items = "[Wrapped node_12 (Some 0.87), Wrapped node_45 None]"
      and content = "[TextBlock ''Up to 25% extra time (Page 12).'']"]
  by (simp add: configured_two ready_topic_1 topic_ready_status topic_ready_pipeline retrieve_two
      answer_two_eval)
     (simp add: query_services_two_def answer_two_def)

text \<open>
  C6, as stated, fails: on a retrieval response whose element has the flat shape,
  the handler throws while formatting the first passage and answers with success = false,
  before any synthesis call.
\<close>

theorem flat_passage_rejected_counterexample:
  "retrieve query_services_flat = Inr [Flat node_12 (Some 0.87)] \<and>
   queryTopic_handler example_query query_services_flat table_ready =
     (Inr \<lparr>success = False, answer = None, citations = None, metadata = None,
           error = Some (''Cannot read properties of undefined (reading ''
                         @ [CHR 0x27] @ ''extra_info'' @ [CHR 0x27] @ '')'')\<rparr>,
      [GetCommand ''topic-1'', Retrieve (JString ''pipe-1'') ''How much extra time may be granted?''])"
proof -
  have c: "query_configured query_services_flat"
    by (simp add: query_configured_def query_services_flat_def query_services_two_def
        example_env_def truthy_def)
  have s: "send_Get query_services_flat = None"
    by (simp add: query_services_flat_def query_services_two_def)
  have ne: "[Flat node_12 (Some 0.87)] \<noteq> []" by simp
  note h = handler_ready[where t = table_ready and a = example_query, OF c s ready_topic_1
      topic_ready_status topic_ready_pipeline retrieve_flat ne]
  show ?thesis unfolding h
    by (simp add: retrieve_flat)
       (simp add: synthesize_and_cite_def excerpt_block_def TypeError_reading_def
          query_failure_def error_message_def example_query_def topic_ready_def
          attribute_value_def)
qed

text \<open>
  C6, amended. For a READY Topic and a retrieval response with N \<ge> 1 elements: when every
  element has the wrapped shape and the synthesis call returns a message with content, the
  response is successful and cites each passage with its page label and file name
  (\<open>Unknown\<close> for a falsy one) and the excerpt of its text; when some element has the flat
  shape, the handler answers success = false with the engine's message for reading
  \<open>extra_info\<close> of \<open>undefined\<close>, and makes no synthesis call.
\<close>

theorem wrapped_passages_cited_flat_rejected:
  assumes "query_configured w" "send_Get w = None" "t (q_topicId a) = Some topic"
    "topicStatus topic = Some ''READY''" "truthy_attribute (llamaCloudPipelineId topic)"
    "retrieve w = Inr items" "items \<noteq> []"
  shows "((\<forall>x\<in>set items. node x \<noteq> None) \<and>
          (\<exists>content. messages_create w = Inr content \<and> content \<noteq> []) \<longrightarrow>
            (\<exists>r cs. fst (queryTopic_handler a w t) = Inr r \<and> success r \<and>
               citations r = Some cs \<and> length cs = length items \<and>
               (\<forall>k<length items. \<forall>n. node (items ! k) = Some n \<longrightarrow>
                  page (cs ! k) = or_Unknown_label (page_label_of n) \<and>
                  fileName (cs ! k) = or_Unknown (file_name_of n) \<and>
                  excerpt (cs ! k) = excerpt_of (node_text n)))) \<and>
         ((\<exists>x\<in>set items. node x = None) \<longrightarrow>
            queryTopic_handler a w t =
              (Inr (query_failure (error_message (TypeError_reading ''extra_info''))),
               [GetCommand (q_topicId a),
                Retrieve (attribute_value (llamaCloudPipelineId topic)) (q_query a)]))"
proof (intro conjI impI)
  assume w: "(\<forall>x\<in>set items. node x \<noteq> None) \<and>
          (\<exists>content. messages_create w = Inr content \<and> content \<noteq> [])"
  then obtain content where content: "messages_create w = Inr content" "content \<noteq> []" by blast
  from w have wrapped: "\<forall>x\<in>set items. node x \<noteq> None" by blast
  obtain r cs where r: "fst (queryTopic_handler a w t) = Inr r" "success r" "citations r = Some cs"
    and cs: "array_map citation 0 items = Inr cs"
    using wrapped_answer[where t = t and a = a, OF assms wrapped content] by blast
  have len: "length cs = length items" using cs by (rule array_map_length)
  have each: "page (cs ! k) = or_Unknown_label (page_label_of n) \<and>
       fileName (cs ! k) = or_Unknown (file_name_of n) \<and>
       excerpt (cs ! k) = excerpt_of (node_text n)"
    if "k < length items" "node (items ! k) = Some n" for k n
    using citation_nth[OF cs that] by simp
  show "\<exists>r cs. fst (queryTopic_handler a w t) = Inr r \<and> success r \<and>
               citations r = Some cs \<and> length cs = length items \<and>
               (\<forall>k<length items. \<forall>n. node (items ! k) = Some n \<longrightarrow>
                  page (cs ! k) = or_Unknown_label (page_label_of n) \<and>
                  fileName (cs ! k) = or_Unknown (file_name_of n) \<and>
                  excerpt (cs ! k) = excerpt_of (node_text n))"
    using r len each by blast
next
  assume "\<exists>x\<in>set items. node x = None"
  then obtain x where x: "x \<in> set items" "node x = None" by blast
  note h = handler_ready[where t = t and a = a, OF assms]
  show "queryTopic_handler a w t =
              (Inr (query_failure (error_message (TypeError_reading ''extra_info''))),
               [GetCommand (q_topicId a),
                Retrieve (attribute_value (llamaCloudPipelineId topic)) (q_query a)])"
    unfolding h by (simp add: synthesize_and_cite_def blocks_flat[OF x])
qed

theorem wrapped_passages_cited_flat_rejected_witness:
  "query_configured query_services_flat \<and> send_Get query_services_flat = None \<and>
   table_ready (q_topicId example_query) = Some topic_ready \<and>
   topicStatus topic_ready = Some ''READY'' \<and> truthy_attribute (llamaCloudPipelineId topic_ready) \<and>
   retrieve query_services_flat = Inr [Flat node_12 (Some 0.87)] \<and>
   node (Flat node_12 (Some 0.87)) = None \<and>
   fst (queryTopic_handler example_query query_services_flat table_ready) =
     Inr (query_failure (error_message (TypeError_reading ''extra_info'')))"
  using wrapped_passages_cited_flat_rejected[where t = table_ready and a = example_query
      and w = query_services_flat and topic = topic_ready
      and items = "[Flat node_12 (Some 0.87)]"]
  by (simp add: ready_topic_1 topic_ready_status topic_ready_pipeline retrieve_flat)
     (simp add: query_configured_def query_services_flat_def query_services_two_def
        example_env_def truthy_def)

text \<open>
  C5. For every query of a READY Topic with a pipeline identifier whose retrieval call
  succeeds with zero passages, the handler returns success = true with the canned answer,
  an empty citation list and \<open>nodesRetrieved = 0\<close>; the calls it makes are the read of the
  Topic and the retrieval, and no synthesis call.
\<close>

theorem zero_passages_canned_answer:
  assumes "query_configured w" "send_Get w = None" "t (q_topicId a) = Some topic"
    "topicStatus topic = Some ''READY''" "truthy_attribute (llamaCloudPipelineId topic)"
    "retrieve w = Inr []"
  shows "queryTopic_handler a w t =
     (Inr \<lparr>success = True, answer = Some no_relevant_information, citations = Some [],
           metadata = Some \<lparr>topicTitle = title topic, queryDate = None, nodesRetrieved = 0\<rparr>,
           error = None\<rparr>,
      [GetCommand (q_topicId a), Retrieve (attribute_value (llamaCloudPipelineId topic)) (q_query a)])"
  using assms
  by (simp add: queryTopic_handler_def queryTopic_try_def retrieve_and_answer_def Let_def)

lemma configured_none: "query_configured query_services_none"
  by (simp add: query_configured_def query_services_none_def query_services_two_def
      example_env_def truthy_def)

lemma send_Get_none: "send_Get query_services_none = None"
  by (simp add: query_services_none_def query_services_two_def)

lemma answer_none_eval:
  "queryTopic_handler example_query query_services_none table_ready =
     (Inr answer_none,
      [GetCommand ''topic-1'', Retrieve (JString ''pipe-1'') ''How much extra time may be granted?''])"
  by (simp add: queryTopic_handler_def queryTopic_try_def retrieve_and_answer_def Let_def
        configured_none send_Get_none ready_topic_1 topic_ready_status topic_ready_pipeline
        retrieve_none)
     (simp add: answer_none_def topic_ready_def example_query_def attribute_value_def)

theorem zero_passages_canned_answer_witness:
  "query_configured query_services_none \<and> send_Get query_services_none = None \<and>
   table_ready (q_topicId example_query) = Some topic_ready \<and>
   topicStatus topic_ready = Some ''READY'' \<and> truthy_attribute (llamaCloudPipelineId topic_ready) \<and>
   retrieve query_services_none = Inr [] \<and>
   queryTopic_handler example_query query_services_none table_ready =
     (Inr answer_none,
      [GetCommand ''topic-1'', Retrieve (JString ''pipe-1'') ''How much extra time may be granted?''])"
  using zero_passages_canned_answer[where t = table_ready and a = example_query
      and w = query_services_none and topic = topic_ready]
  by (simp add: ready_topic_1 topic_ready_status topic_ready_pipeline retrieve_none
      configured_none send_Get_none answer_none_eval)

lemma failure_no_success: "\<not> success (query_failure m)"
  by (simp add: query_failure_def)

text \<open>
  C7. A query of an existing Topic whose status is not READY returns success = false and
  never makes the retrieval call; with a configured environment and a successful read, the
  error message ends with the Topic's current status and the only call is the read. A
  missing Topic is refused before the status is looked at, and a READY Topic without a
  pipeline identifier before retrieval, each with its own message.
\<close>

theorem query_refused_unless_ready:
  assumes "queryTopic_handler a w t = (res, calls)"
  shows
   "(\<forall>topic. t (q_topicId a) = Some topic \<and> topicStatus topic \<noteq> Some ''READY'' \<longrightarrow>
       (\<exists>r. res = Inr r \<and> \<not> success r) \<and> (\<forall>p q. Retrieve p q \<notin> set calls) \<and>
       (query_configured w \<and> send_Get w = None \<longrightarrow>
          res = Inr (query_failure (''Topic is not ready for querying. Current status: ''
                                    @ template (topicStatus topic))) \<and>
          calls = [GetCommand (q_topicId a)])) \<and>
    (t (q_topicId a) = None \<longrightarrow>
       (\<exists>r. res = Inr r \<and> \<not> success r) \<and> (\<forall>p q. Retrieve p q \<notin> set calls) \<and>
       (query_configured w \<and> send_Get w = None \<longrightarrow>
          res = Inr (query_failure (''Topic not found: '' @ q_topicId a)) \<and>
          calls = [GetCommand (q_topicId a)])) \<and>
    (\<forall>topic. t (q_topicId a) = Some topic \<and> topicStatus topic = Some ''READY'' \<and>
         \<not> truthy_attribute (llamaCloudPipelineId topic) \<longrightarrow>
       (\<exists>r. res = Inr r \<and> \<not> success r) \<and> (\<forall>p q. Retrieve p q \<notin> set calls) \<and>
       (query_configured w \<and> send_Get w = None \<longrightarrow>
          res = Inr (query_failure ''Topic does not have a Llama Cloud pipeline ID'') \<and>
          calls = [GetCommand (q_topicId a)]))"
  using assms
  by (auto simp add: queryTopic_handler_def queryTopic_try_def Let_def failure_no_success
      error_message_def split: if_splits option.splits)

lemma pending_topic_1:
  "table_created (q_topicId example_query) = Some \<lparr>title = Some ''JCQ Access Arrangements'',
     description = Some ''Regulations'', s3Key = Some ''send-connect-raw-docs/user-1/1-jcq.pdf'',
     topicStatus = Some ''PENDING'', llamaCloudPipelineId = None, llamaCloudFileId = None,
     indexedAt = None, createdAt = Some ''2025-01-01T09:59:00.000Z'',
     updatedAt = Some ''2025-01-01T09:59:00.000Z''\<rparr>"
  by (simp add: table_created_def Topic_create_def example_query_def)

lemma pending_refused:
  "queryTopic_handler example_query query_services_two table_created =
     (Inr pending_refusal, [GetCommand ''topic-1''])"
  by (simp add: queryTopic_handler_def queryTopic_try_def Let_def configured_two send_Get_two
        pending_topic_1)
     (simp add: pending_refusal_def query_failure_def error_message_def
        template_def example_query_def)

theorem query_refused_unless_ready_witness:
  "queryTopic_handler example_query query_services_two table_created =
     (Inr pending_refusal, [GetCommand ''topic-1'']) \<and>
   query_configured query_services_two \<and> send_Get query_services_two = None \<and>
   error pending_refusal = Some ''Topic is not ready for querying. Current status: PENDING'' \<and>
   success pending_refusal = False"
  using query_refused_unless_ready[OF pending_refused]
  by (simp add: pending_refused configured_two)
     (simp add: query_services_two_def pending_refusal_def)

lemma synthesize_counts:
  assumes "synthesize_and_cite a w topic items calls = (Inr r, calls')"
  shows "success r \<and> (\<exists>m cs. metadata r = Some m \<and> citations r = Some cs \<and>
     nodesRetrieved m = length cs \<and> topicTitle m = title topic \<and>
     queryDate m = Some (toISOString (Date_query w))) \<and>
     (\<exists>s u. MessagesCreate s u \<in> set calls')"
proof -
  from assms obtain blocks answer_text cs where
    cs: "array_map citation 0 items = Inr cs"
    and r: "r = \<lparr>success = True, answer = Some answer_text, citations = Some cs,
            metadata = Some \<lparr>topicTitle = title topic, queryDate = Some (toISOString (Date_query w)),
                              nodesRetrieved = length items\<rparr>,
            error = None\<rparr>"
    and c: "calls' = calls @ [MessagesCreate systemPrompt (userPrompt topic (q_query a)
                     (join ([CHR 0x0A, CHR 0x0A] @ ''---'' @ [CHR 0x0A, CHR 0x0A]) blocks))]"
    by (auto simp add: synthesize_and_cite_def Let_def split: sum.splits)
  have "MessagesCreate systemPrompt (userPrompt topic (q_query a)
          (join ([CHR 0x0A, CHR 0x0A] @ ''---'' @ [CHR 0x0A, CHR 0x0A]) blocks)) \<in> set calls'"
    using c by simp
  then have "\<exists>s u. MessagesCreate s u \<in> set calls'" by blast
  moreover have "length cs = length items" using cs by (rule array_map_length)
  ultimately show ?thesis using r by simp
qed

lemma retrieve_and_answer_counts:
  assumes "retrieve_and_answer a w topic [GetCommand k] = (Inr r, calls')"
  shows "success r \<and> (\<exists>m cs. metadata r = Some m \<and> citations r = Some cs \<and>
     nodesRetrieved m = length cs) \<and>
     (if \<exists>s u. MessagesCreate s u \<in> set calls'
      then \<exists>m. metadata r = Some m \<and> topicTitle m = title topic \<and>
             queryDate m = Some (toISOString (Date_query w))
      else metadata r = Some \<lparr>topicTitle = title topic, queryDate = None, nodesRetrieved = 0\<rparr> \<and>
           answer r = Some no_relevant_information \<and> citations r = Some [])"
proof (cases "retrieve w")
  case (Inl e)
  then show ?thesis using assms by (simp add: retrieve_and_answer_def Let_def)
next
  case (Inr items)
  show ?thesis
  proof (cases "items = []")
    case True
    then show ?thesis using assms Inr by (auto simp add: retrieve_and_answer_def Let_def)
  next
    case False
    then have "synthesize_and_cite a w topic items
        ([GetCommand k] @ [Retrieve (attribute_value (llamaCloudPipelineId topic)) (q_query a)]) = (Inr r, calls')"
      using assms Inr by (simp add: retrieve_and_answer_def Let_def)
    from synthesize_counts[OF this] show ?thesis by auto
  qed
qed

lemma try_counts:
  assumes "queryTopic_try a w t = (Inr r, calls)"
  shows "\<exists>topic. t (q_topicId a) = Some topic \<and>
     retrieve_and_answer a w topic [GetCommand (q_topicId a)] = (Inr r, calls)"
  using assms
  by (auto simp add: queryTopic_try_def Let_def split: option.splits if_splits)

lemma handler_cases:
  assumes "queryTopic_handler a w t = (Inr r, calls)"
  shows "(query_configured w \<and> queryTopic_try a w t = (Inr r, calls)) \<or>
         (\<exists>m. r = query_failure m)"
  using assms
  by (auto simp add: queryTopic_handler_def split: if_splits prod.splits sum.splits)

text \<open>
  C8. In every response of the query operation with success = true,
  \<open>metadata.nodesRetrieved\<close> equals the length of the citation list; in every response with
  success = false, \<open>metadata\<close> and \<open>citations\<close> are both absent.
\<close>

theorem nodesRetrieved_is_citation_count:
  assumes "fst (queryTopic_handler a w t) = Inr r"
  shows "(success r \<longrightarrow>
            (\<exists>m cs. metadata r = Some m \<and> citations r = Some cs \<and> nodesRetrieved m = length cs)) \<and>
         (\<not> success r \<longrightarrow> metadata r = None \<and> citations r = None)"
proof -
  obtain calls where h: "queryTopic_handler a w t = (Inr r, calls)"
    using assms by (cases "queryTopic_handler a w t") simp
  from handler_cases[OF h] show ?thesis
  proof
    assume "query_configured w \<and> queryTopic_try a w t = (Inr r, calls)"
    then obtain topic where "retrieve_and_answer a w topic [GetCommand (q_topicId a)] = (Inr r, calls)"
      using try_counts by blast
    from retrieve_and_answer_counts[OF this] show ?thesis by blast
  next
    assume "\<exists>m. r = query_failure m"
    then show ?thesis by (auto simp add: query_failure_def)
  qed
qed

theorem nodesRetrieved_is_citation_count_witness:
  "fst (queryTopic_handler example_query query_services_two table_ready) = Inr answer_two \<and>
   success answer_two \<and>
   map_option nodesRetrieved (metadata answer_two) = Some 2 \<and>
   map_option length (citations answer_two) = Some 2"
  using nodesRetrieved_is_citation_count[OF answer_two_eval]
  by (simp add: answer_two_eval) (simp add: answer_two_def)

text \<open>
  C10. A successful response whose run made no synthesis call is the zero-passage
  response: its metadata holds only the topic title and \<open>nodesRetrieved = 0\<close>, with no
  \<open>queryDate\<close>. A successful response whose run made the synthesis call carries
  \<open>queryDate\<close>, the \<open>toISOString\<close> of the clock at that moment, which has the ISO 8601
  format \<open>YYYY-MM-DDTHH:mm:ss.sssZ\<close>.
\<close>

theorem queryDate_only_in_synthesized_answers:
  assumes "queryTopic_handler a w t = (Inr r, calls)" "success r"
    and "fields_in_range (Date_query w)"
  shows "\<exists>topic. t (q_topicId a) = Some topic \<and>
     (if \<exists>s u. MessagesCreate s u \<in> set calls
      then \<exists>m stamp. metadata r = Some m \<and> topicTitle m = title topic \<and>
             queryDate m = Some stamp \<and> stamp = toISOString (Date_query w) \<and> iso_8601 stamp
      else metadata r = Some \<lparr>topicTitle = title topic, queryDate = None, nodesRetrieved = 0\<rparr> \<and>
           answer r = Some no_relevant_information \<and> citations r = Some [])"
proof -
  from handler_cases[OF assms(1)] assms(2)
  have "queryTopic_try a w t = (Inr r, calls)" by (auto simp add: query_failure_def)
  then obtain topic where topic: "t (q_topicId a) = Some topic"
    and "retrieve_and_answer a w topic [GetCommand (q_topicId a)] = (Inr r, calls)"
    using try_counts by blast
  from retrieve_and_answer_counts[OF this(2)] topic toISOString_iso_8601[OF assms(3)]
  show ?thesis by auto
qed

lemma answer_two_run:
  "queryTopic_handler example_query query_services_two table_ready =
     (Inr answer_two, snd (queryTopic_handler example_query query_services_two table_ready))"
  using answer_two_eval by (simp add: prod_eq_iff)

theorem queryDate_only_in_synthesized_answers_witness:
  "queryTopic_handler example_query query_services_none table_ready =
     (Inr answer_none,
      [GetCommand ''topic-1'', Retrieve (JString ''pipe-1'') ''How much extra time may be granted?'']) \<and>
   success answer_none \<and> fields_in_range (Date_query query_services_none) \<and>
   metadata answer_none = Some \<lparr>topicTitle = Some ''JCQ Access Arrangements'', queryDate = None,
                                 nodesRetrieved = 0\<rparr> \<and>
   fst (queryTopic_handler example_query query_services_two table_ready) = Inr answer_two \<and>
   success answer_two \<and> fields_in_range (Date_query query_services_two) \<and>
   metadata answer_two = Some \<lparr>topicTitle = Some ''JCQ Access Arrangements'',
                                queryDate = Some ''2025-01-01T10:30:00.000Z'',
                                nodesRetrieved = 2\<rparr> \<and>
   iso_8601 ''2025-01-01T10:30:00.000Z''"
  using queryDate_only_in_synthesized_answers[OF answer_none_eval]
    queryDate_only_in_synthesized_answers[OF answer_two_run]
  by (simp add: answer_none_eval answer_two_eval)
     (simp add: answer_none_def answer_two_def query_services_none_def query_services_two_def
        date_at_in_range iso_8601_def is_digit_def)

section \<open>No error escapes a handler\<close>

lemma upload_outcome:
  assumes "upload_configured w" "send_INDEXING w = None"
  shows "fst (uploadToLlamaCloud_handler a w t) =
     (case fst (indexing_steps w) of
        Inl e \<Rightarrow> Inr (upload_failure (error_message e))
      | Inr (pid, fid) \<Rightarrow>
          (case send_READY_with w pid fid of
             Some e \<Rightarrow> Inr (upload_failure (error_message e))
           | None \<Rightarrow> Inr \<lparr>u_success = True,
                          u_message = Some ''PDF uploaded and indexed successfully'',
                          u_pipelineId = Some pid, u_fileId = Some fid, u_error = None\<rparr>))"
  using assms
  by (simp add: uploadToLlamaCloud_handler_def uploadToLlamaCloud_try_def Let_def
      split: prod.splits sum.splits option.splits)

lemma upload_first_write:
  assumes "upload_configured w" "send_INDEXING w = Some e"
  shows "fst (uploadToLlamaCloud_handler a w t) = Inr (upload_failure (error_message e))"
  using assms by (simp add: uploadToLlamaCloud_handler_def uploadToLlamaCloud_try_def)

lemma upload_returns: "\<exists>r. fst (uploadToLlamaCloud_handler a w t) = Inr r"
  by (cases "uploadToLlamaCloud_try a w t")
     (auto simp add: uploadToLlamaCloud_handler_def split: sum.splits)

lemma query_returns: "\<exists>r. fst (queryTopic_handler a w t) = Inr r"
  by (cases "queryTopic_try a w t")
     (auto simp add: queryTopic_handler_def split: sum.splits)

lemma query_outcome:
  assumes "query_configured w" "send_Get w = None" "t (q_topicId a) = Some topic"
    "topicStatus topic = Some ''READY''" "truthy_attribute (llamaCloudPipelineId topic)"
  shows "fst (queryTopic_handler a w t) =
     (case retrieve w of
        Inl e \<Rightarrow> Inr (query_failure (error_message e))
      | Inr items \<Rightarrow>
          if items = []
          then Inr \<lparr>success = True, answer = Some no_relevant_information, citations = Some [],
                    metadata = Some \<lparr>topicTitle = title topic, queryDate = None,
                                      nodesRetrieved = 0\<rparr>,
                    error = None\<rparr>
          else (case fst (synthesize_and_cite a w topic items
                       [GetCommand (q_topicId a),
                        Retrieve (attribute_value (llamaCloudPipelineId topic)) (q_query a)]) of
                  Inl e \<Rightarrow> Inr (query_failure (error_message e))
                | Inr r \<Rightarrow> Inr r))"
  using assms
  by (simp add: queryTopic_handler_def queryTopic_try_def retrieve_and_answer_def Let_def
      split: sum.splits prod.splits)

lemma synthesize_outcome:
  "fst (synthesize_and_cite a w topic items calls) =
     (case array_map excerpt_block 0 items of
        Inl e \<Rightarrow> Inl e
      | Inr blocks \<Rightarrow>
          (case messages_create w of
             Inl e \<Rightarrow> Inl e
           | Inr content \<Rightarrow>
               (case first_text content of
                  Inl e \<Rightarrow> Inl e
                | Inr answer_text \<Rightarrow>
                    (case array_map citation 0 items of
                       Inl e \<Rightarrow> Inl e
                     | Inr cs \<Rightarrow>
                         Inr \<lparr>success = True, answer = Some answer_text, citations = Some cs,
                              metadata = Some \<lparr>topicTitle = title topic,
                                                queryDate = Some (toISOString (Date_query w)),
                                                nodesRetrieved = length items\<rparr>,
                              error = None\<rparr>))))"
  by (simp add: synthesize_and_cite_def Let_def split: sum.splits)

lemma blocks_wrapped:
  "\<forall>x\<in>set items. node x \<noteq> None \<Longrightarrow> \<exists>blocks. array_map excerpt_block 0 items = Inr blocks"
  using array_map_total[of items excerpt_block 0] excerpt_block_wrapped by blast

lemma query_first_read:
  assumes "query_configured w" "send_Get w = Some e"
  shows "fst (queryTopic_handler a w t) = Inr (query_failure (error_message e))"
  using assms by (simp add: queryTopic_handler_def queryTopic_try_def Let_def)

text \<open>
  C9. Neither handler lets an error escape: whatever the arguments, the environment, the
  table and the outcome of every external call, each returns an object. Without its
  environment variables a handler returns \<open>{success: false, error}\<close> at once. In a
  configured environment every failure of a step gives \<open>{success: false, error}\<close> with the
  message of what was thrown (\<open>Unknown error occurred\<close> for a value that is not an
  \<open>Error\<close>): a rejected store write or read; a Topic that is missing, not READY or without a
  pipeline identifier; a rejected S3 request, a missing body or a
  rejected read of it; for each HTTP call a rejected \<open>fetch\<close>, a non-success status (the
  message then holds the status and the body text) and a rejected read or parse of the
  body; an \<open>undefined\<close> identifier or a rejected write at the READY write; and while
  formatting the answer, a passage without \<open>node\<close>, a rejected synthesis call and a message
  without content. Each failure is stated for the runs in which the calls before it
  succeeded.
\<close>

theorem handlers_never_throw:
  "(\<exists>r. fst (uploadToLlamaCloud_handler a w t) = Inr r) \<and>
   (\<not> upload_configured w \<longrightarrow>
      fst (uploadToLlamaCloud_handler a w t) =
        Inr (upload_failure ''Missing required environment variables'')) \<and>
   (upload_configured w \<longrightarrow>
   ((\<forall>e. send_INDEXING w = Some e \<longrightarrow>
           fst (uploadToLlamaCloud_handler a w t) = Inr (upload_failure (error_message e))) \<and>
      (send_INDEXING w = None \<longrightarrow>
        (\<forall>e. s3_GetObject w = Inl e \<longrightarrow>
           fst (uploadToLlamaCloud_handler a w t) = Inr (upload_failure (error_message e))) \<and>
        (\<forall>obj. s3_GetObject w = Inr obj \<and> Body obj = None \<longrightarrow>
           fst (uploadToLlamaCloud_handler a w t) =
             Inr (upload_failure ''Failed to download PDF from S3'')) \<and>
        (\<forall>obj e. s3_GetObject w = Inr obj \<and> Body obj = Some (Inl e) \<longrightarrow>
           fst (uploadToLlamaCloud_handler a w t) = Inr (upload_failure (error_message e))) \<and>
        (\<forall>obj pdf. s3_GetObject w = Inr obj \<and> Body obj = Some (Inr pdf) \<longrightarrow>
          (\<forall>e. fetch_pipelines w = Inl e \<longrightarrow>
             fst (uploadToLlamaCloud_handler a w t) = Inr (upload_failure (error_message e))) \<and>
          (\<forall>r e. fetch_pipelines w = Inr r \<and> \<not> ok r \<and> body_text r = Inl e \<longrightarrow>
             fst (uploadToLlamaCloud_handler a w t) = Inr (upload_failure (error_message e))) \<and>
          (\<forall>r txt. fetch_pipelines w = Inr r \<and> \<not> ok r \<and> body_text r = Inr txt \<longrightarrow>
             fst (uploadToLlamaCloud_handler a w t) =
               Inr (upload_failure (''Failed to create pipeline: '' @ show_nat (status r)
                                    @ '' - '' @ txt))) \<and>
          (\<forall>r e. fetch_pipelines w = Inr r \<and> ok r \<and> body_json r = Inl e \<longrightarrow>
             fst (uploadToLlamaCloud_handler a w t) = Inr (upload_failure (error_message e))) \<and>
          (\<forall>r pid. fetch_pipelines w = Inr r \<and> ok r \<and> body_json r = Inr pid \<longrightarrow>
            (\<forall>e. fetch_files w = Inl e \<longrightarrow>
               fst (uploadToLlamaCloud_handler a w t) = Inr (upload_failure (error_message e))) \<and>
            (\<forall>r' e. fetch_files w = Inr r' \<and> \<not> ok r' \<and> body_text r' = Inl e \<longrightarrow>
               fst (uploadToLlamaCloud_handler a w t) = Inr (upload_failure (error_message e))) \<and>
            (\<forall>r' txt. fetch_files w = Inr r' \<and> \<not> ok r' \<and> body_text r' = Inr txt \<longrightarrow>
               fst (uploadToLlamaCloud_handler a w t) =
                 Inr (upload_failure (''Failed to upload file: '' @ show_nat (status r')
                                      @ '' - '' @ txt))) \<and>
            (\<forall>r' e. fetch_files w = Inr r' \<and> ok r' \<and> body_json r' = Inl e \<longrightarrow>
               fst (uploadToLlamaCloud_handler a w t) = Inr (upload_failure (error_message e))) \<and>
            (\<forall>r' fid. fetch_files w = Inr r' \<and> ok r' \<and> body_json r' = Inr fid \<longrightarrow>
              (\<forall>e. fetch_pipeline_files w = Inl e \<longrightarrow>
                 fst (uploadToLlamaCloud_handler a w t) = Inr (upload_failure (error_message e))) \<and>
              (\<forall>r'' e. fetch_pipeline_files w = Inr r'' \<and> \<not> ok r'' \<and> body_text r'' = Inl e \<longrightarrow>
                 fst (uploadToLlamaCloud_handler a w t) = Inr (upload_failure (error_message e))) \<and>
              (\<forall>r'' txt. fetch_pipeline_files w = Inr r'' \<and> \<not> ok r'' \<and> body_text r'' = Inr txt \<longrightarrow>
                 fst (uploadToLlamaCloud_handler a w t) =
                   Inr (upload_failure (''Failed to add file to pipeline: '' @ show_nat (status r'')
                                        @ '' - '' @ txt))) \<and>
              (\<forall>r''. fetch_pipeline_files w = Inr r'' \<and> ok r'' \<longrightarrow>
                 (pid = JUndefined \<or> fid = JUndefined \<longrightarrow>
                    fst (uploadToLlamaCloud_handler a w t) =
                      Inr (upload_failure (error_message (undefined_value w)))) \<and>
                 (\<forall>e. pid \<noteq> JUndefined \<and> fid \<noteq> JUndefined \<and> send_READY w = Some e \<longrightarrow>
                    fst (uploadToLlamaCloud_handler a w t) =
                      Inr (upload_failure (error_message e)))))))))) \<and>
   (\<exists>r. fst (queryTopic_handler b v t') = Inr r) \<and>
   (\<not> query_configured v \<longrightarrow>
      fst (queryTopic_handler b v t') =
        Inr (query_failure ''Missing required environment variables'')) \<and>
   (query_configured v \<longrightarrow>
      (\<forall>e. send_Get v = Some e \<longrightarrow>
         fst (queryTopic_handler b v t') = Inr (query_failure (error_message e))) \<and>
      (send_Get v = None \<longrightarrow>
         (t' (q_topicId b) = None \<longrightarrow>
            fst (queryTopic_handler b v t') =
              Inr (query_failure (''Topic not found: '' @ q_topicId b))) \<and>
         (\<forall>topic. t' (q_topicId b) = Some topic \<and> topicStatus topic \<noteq> Some ''READY'' \<longrightarrow>
            fst (queryTopic_handler b v t') =
              Inr (query_failure (''Topic is not ready for querying. Current status: ''
                                  @ template (topicStatus topic)))) \<and>
         (\<forall>topic. t' (q_topicId b) = Some topic \<and> topicStatus topic = Some ''READY'' \<and>
              \<not> truthy_attribute (llamaCloudPipelineId topic) \<longrightarrow>
            fst (queryTopic_handler b v t') =
              Inr (query_failure ''Topic does not have a Llama Cloud pipeline ID'')) \<and>
         (\<forall>topic. t' (q_topicId b) = Some topic \<and> topicStatus topic = Some ''READY'' \<and>
              truthy_attribute (llamaCloudPipelineId topic) \<longrightarrow>
            (\<forall>e. fetch_retrieve v = Inl e \<longrightarrow>
               fst (queryTopic_handler b v t') = Inr (query_failure (error_message e))) \<and>
            (\<forall>r e. fetch_retrieve v = Inr r \<and> \<not> ok r \<and> body_text r = Inl e \<longrightarrow>
               fst (queryTopic_handler b v t') = Inr (query_failure (error_message e))) \<and>
            (\<forall>r txt. fetch_retrieve v = Inr r \<and> \<not> ok r \<and> body_text r = Inr txt \<longrightarrow>
               fst (queryTopic_handler b v t') =
                 Inr (query_failure (''Failed to retrieve from Llama Cloud: '' @ show_nat (status r)
                                     @ '' - '' @ txt))) \<and>
            (\<forall>r e. fetch_retrieve v = Inr r \<and> ok r \<and> body_json r = Inl e \<longrightarrow>
               fst (queryTopic_handler b v t') = Inr (query_failure (error_message e))) \<and>
            (\<forall>r d items. fetch_retrieve v = Inr r \<and> ok r \<and> body_json r = Inr d \<and>
                 retrieval_nodes d = Some items \<and> items \<noteq> [] \<longrightarrow>
               ((\<exists>x\<in>set items. node x = None) \<longrightarrow>
                  fst (queryTopic_handler b v t') =
                    Inr (query_failure (error_message (TypeError_reading ''extra_info'')))) \<and>
               ((\<forall>x\<in>set items. node x \<noteq> None) \<longrightarrow>
                  (\<forall>e. messages_create v = Inl e \<longrightarrow>
                     fst (queryTopic_handler b v t') = Inr (query_failure (error_message e))) \<and>
                  (messages_create v = Inr [] \<longrightarrow>
                     fst (queryTopic_handler b v t') =
                       Inr (query_failure (error_message (TypeError_reading ''type'')))))))))"
  (is "?R1 \<and> ?N1 \<and> (_ \<longrightarrow> ?U) \<and> ?R2 \<and> ?N2 \<and> (_ \<longrightarrow> ?G \<and>
       (_ \<longrightarrow> ?T1 \<and> ?T2 \<and> ?T3 \<and> (\<forall>topic. ?P topic \<longrightarrow> ?Q topic)))")
proof -
  have r1: ?R1 by (rule upload_returns)
  have n1: ?N1 by (simp add: uploadToLlamaCloud_handler_def)
  have u: ?U if c: "upload_configured w"
  proof (cases "send_INDEXING w")
    case (Some e)
    then show ?thesis using upload_first_write[OF c Some] by simp
  next
    case None
    note o = upload_outcome[OF c None]
    show ?thesis unfolding o using None
      by (auto simp add: indexing_steps_def download_pdf_def create_pipeline_def upload_file_def
          add_file_to_pipeline_def throw_unless_ok_def send_READY_with_def error_message_def)
  qed
  have r2: ?R2 by (rule query_returns)
  have n2: ?N2 by (simp add: queryTopic_handler_def)
  have g: ?G if c: "query_configured v" using query_first_read[OF c] by simp
  have l: "?T1 \<and> ?T2 \<and> ?T3" if c: "query_configured v" and g: "send_Get v = None"
    using c g by (simp add: queryTopic_handler_def queryTopic_try_def Let_def error_message_def)
  have q: "?Q topic" if c: "query_configured v" and g: "send_Get v = None" and p: "?P topic"
    for topic
  proof -
    from p have topic: "t' (q_topicId b) = Some topic" "topicStatus topic = Some ''READY''"
      "truthy_attribute (llamaCloudPipelineId topic)" by simp_all
    note o = query_outcome[where t = t' and a = b, OF c g topic]
    have retrieval: "fetch_retrieve v = Inr r \<Longrightarrow> ok r \<Longrightarrow> body_json r = Inr d \<Longrightarrow>
        retrieval_nodes d = Some items \<Longrightarrow> retrieve v = Inr items" for r d items
      by (simp add: retrieve_def throw_unless_ok_def)
    have flat: "fst (queryTopic_handler b v t') =
          Inr (query_failure (error_message (TypeError_reading ''extra_info'')))"
      if "retrieve v = Inr items" "items \<noteq> []" "x \<in> set items" "node x = None" for items x
      unfolding o synthesize_outcome using that blocks_flat[OF that(3,4), of 0] by simp
    have wrapped_reject: "fst (queryTopic_handler b v t') = Inr (query_failure (error_message e))"
      if h: "retrieve v = Inr items" "items \<noteq> []" "\<forall>x\<in>set items. node x \<noteq> None"
        "messages_create v = Inl e" for items e
    proof -
      obtain blocks where "array_map excerpt_block 0 items = Inr blocks"
        using blocks_wrapped[OF h(3)] by blast
      then show ?thesis unfolding o synthesize_outcome using h by simp
    qed
    have wrapped_empty: "fst (queryTopic_handler b v t') =
          Inr (query_failure (error_message (TypeError_reading ''type'')))"
      if h: "retrieve v = Inr items" "items \<noteq> []" "\<forall>x\<in>set items. node x \<noteq> None"
        "messages_create v = Inr []" for items
    proof -
      obtain blocks where "array_map excerpt_block 0 items = Inr blocks"
        using blocks_wrapped[OF h(3)] by blast
      then show ?thesis unfolding o synthesize_outcome using h by (simp add: first_text_def)
    qed
    have early: "(\<forall>e. fetch_retrieve v = Inl e \<longrightarrow>
              fst (queryTopic_handler b v t') = Inr (query_failure (error_message e))) \<and>
           (\<forall>r e. fetch_retrieve v = Inr r \<and> \<not> ok r \<and> body_text r = Inl e \<longrightarrow>
              fst (queryTopic_handler b v t') = Inr (query_failure (error_message e))) \<and>
           (\<forall>r txt. fetch_retrieve v = Inr r \<and> \<not> ok r \<and> body_text r = Inr txt \<longrightarrow>
              fst (queryTopic_handler b v t') =
                Inr (query_failure (''Failed to retrieve from Llama Cloud: '' @ show_nat (status r)
                                    @ '' - '' @ txt))) \<and>
           (\<forall>r e. fetch_retrieve v = Inr r \<and> ok r \<and> body_json r = Inl e \<longrightarrow>
              fst (queryTopic_handler b v t') = Inr (query_failure (error_message e)))"
      unfolding o by (auto simp add: retrieve_def throw_unless_ok_def error_message_def)
    show ?thesis (is "?E1 \<and> ?E2 \<and> ?E3 \<and> ?E4 \<and> ?L")
    proof -
      have late: ?L
      proof (intro allI impI, elim conjE)
        fix r d items
        assume a: "fetch_retrieve v = Inr r" "ok r" "body_json r = Inr d"
          "retrieval_nodes d = Some items" "items \<noteq> []"
        note i = retrieval[OF a(1-4)]
        show "((\<exists>x\<in>set items. node x = None) \<longrightarrow>
                fst (queryTopic_handler b v t') =
                  Inr (query_failure (error_message (TypeError_reading ''extra_info'')))) \<and>
              ((\<forall>x\<in>set items. node x \<noteq> None) \<longrightarrow>
                (\<forall>e. messages_create v = Inl e \<longrightarrow>
                   fst (queryTopic_handler b v t') = Inr (query_failure (error_message e))) \<and>
                (messages_create v = Inr [] \<longrightarrow>
                   fst (queryTopic_handler b v t') =
                     Inr (query_failure (error_message (TypeError_reading ''type'')))))"
          using flat[OF i a(5)] wrapped_reject[OF i a(5)] wrapped_empty[OF i a(5)] by blast
      qed
      note e = early[THEN conjunct1] early[THEN conjunct2, THEN conjunct1]
        early[THEN conjunct2, THEN conjunct2, THEN conjunct1]
        early[THEN conjunct2, THEN conjunct2, THEN conjunct2]
      show ?thesis by (intro conjI) (rule e late)+
    qed
  qed
  have u': "upload_configured w \<longrightarrow> ?U" by (rule impI) (rule u)
  have q': "query_configured v \<longrightarrow>
      ?G \<and> (send_Get v = None \<longrightarrow> ?T1 \<and> ?T2 \<and> ?T3 \<and> (\<forall>topic. ?P topic \<longrightarrow> ?Q topic))"
  proof (rule impI)
    assume c: "query_configured v"
    have "?T1 \<and> ?T2 \<and> ?T3 \<and> (\<forall>topic. ?P topic \<longrightarrow> ?Q topic)" if s: "send_Get v = None"
    proof -
      have topics: "\<forall>topic. ?P topic \<longrightarrow> ?Q topic"
        by (intro allI impI) (rule q[OF c s], assumption)
      note lookup = l[OF c s]
      note k = lookup[THEN conjunct1] lookup[THEN conjunct2, THEN conjunct1]
        lookup[THEN conjunct2, THEN conjunct2]
      show ?thesis by (intro conjI) (rule k topics)+
    qed
    then have "send_Get v = None \<longrightarrow> ?T1 \<and> ?T2 \<and> ?T3 \<and> (\<forall>topic. ?P topic \<longrightarrow> ?Q topic)"
      by (rule impI)
    with g[OF c] show "?G \<and> (send_Get v = None \<longrightarrow>
        ?T1 \<and> ?T2 \<and> ?T3 \<and> (\<forall>topic. ?P topic \<longrightarrow> ?Q topic))"
      by (rule conjI)
  qed
  show ?thesis by (intro conjI) (rule r1 n1 u' r2 n2 q')+
qed

theorem handlers_never_throw_witness:
  "upload_configured services_create_400 \<and> send_INDEXING services_create_400 = None \<and>
   s3_GetObject services_create_400 = Inr \<lparr>Body = Some (Inr [37, 80, 68, 70])\<rparr> \<and>
   fetch_pipelines services_create_400 =
     Inr \<lparr>status = 400, body_text = Inr ''Bad Request'',
          body_json = Inl (Error ''Unexpected token B in JSON at position 0'')\<rparr> \<and>
   \<not> ok \<lparr>status = 400, body_text = Inr ''Bad Request'',
          body_json = Inl (Error ''Unexpected token B in JSON at position 0'') :: thrown + json\<rparr> \<and>
   fst (uploadToLlamaCloud_handler example_arguments services_create_400 table_created)
     = Inr \<lparr>u_success = False, u_message = None, u_pipelineId = None, u_fileId = None,
            u_error = Some ''Failed to create pipeline: 400 - Bad Request''\<rparr> \<and>
   query_configured query_services_get_rejects \<and>
   send_Get query_services_get_rejects = Some NonError \<and>
   fst (queryTopic_handler example_query query_services_get_rejects table_ready)
     = Inr \<lparr>success = False, answer = None, citations = None, metadata = None,
            error = Some ''Unknown error occurred''\<rparr>"
proof -
  have u: "upload_configured services_create_400"
    by (simp add: upload_configured_def services_create_400_def services_succeed_def
        example_env_def truthy_def)
  have i: "send_INDEXING services_create_400 = None"
    by (simp add: services_create_400_def services_succeed_def)
  have s: "s3_GetObject services_create_400 = Inr \<lparr>Body = Some (Inr [37, 80, 68, 70])\<rparr>"
    by (simp add: services_create_400_def services_succeed_def)
  have f: "fetch_pipelines services_create_400 =
     Inr \<lparr>status = 400, body_text = Inr ''Bad Request'',
          body_json = Inl (Error ''Unexpected token B in JSON at position 0'')\<rparr>"
    by (simp add: services_create_400_def)
  have q: "query_configured query_services_get_rejects"
    by (simp add: query_configured_def query_services_get_rejects_def query_services_two_def
        example_env_def truthy_def)
  have g: "send_Get query_services_get_rejects = Some NonError"
    by (simp add: query_services_get_rejects_def)
  show ?thesis
    using handlers_never_throw[of example_arguments services_create_400 table_created
        example_query query_services_get_rejects table_ready]
    by (simp add: u i s f q g ok_def show_400 upload_failure_def query_failure_def
        error_message_def)
qed
end
